theory Spec2Isabelle
  imports Main
begin

section \<open>Constants\<close>

text \<open>
  Modelled from the spec: \<^verbatim>\<open>config/constants.js\<close> (\<^verbatim>\<open>USER_ROLES\<close>, \<^verbatim>\<open>USER_STATUS\<close>,
  \<^verbatim>\<open>HTTP_STATUS\<close>, \<^verbatim>\<open>ERROR_CODES\<close>, \<^verbatim>\<open>JWT_CONFIG\<close>, \<^verbatim>\<open>CACHE_KEYS\<close>, \<^verbatim>\<open>CACHE_TTL\<close>) is not among
  the sources. Roles and statuses are the closed enumerations of the specification's data
  model, with the member names the sources use. Status and error codes are enumerations of
  the keys the sources read, so two different keys are two different values. The numeric
  and string settings (token lifetimes, issuer, audience, cache lifetime) are parameters.
\<close>

datatype role =
  SUPERADMIN | COMPANY_ADMIN | ACCOUNTANT | MANAGER
  | SALES_USER | PURCHASE_USER | INVENTORY_USER | VIEWER

datatype status = ACTIVE | INACTIVE | SUSPENDED

datatype http_status =
  BAD_REQUEST | UNAUTHORIZED | FORBIDDEN | NOT_FOUND | CONFLICT
  | TOO_MANY_REQUESTS | INTERNAL_SERVER_ERROR

datatype error_code =
  VALIDATION_ERROR | AUTH_TOKEN_INVALID | AUTH_TOKEN_EXPIRED | AUTH_INVALID_CREDENTIALS
  | AUTH_INSUFFICIENT_PERMISSIONS | AUTH_ACCOUNT_SUSPENDED
  | DB_RECORD_NOT_FOUND | DB_DUPLICATE_ENTRY | INTERNAL_ERROR

record jwt_config =
  ACCESS_TOKEN_EXPIRY :: nat
  REFRESH_TOKEN_EXPIRY :: nat
  ISSUER :: string
  AUDIENCE :: string

section \<open>utils/ApiError.js\<close>

text \<open>
  An \<^verbatim>\<open>ApiError\<close> carries a status code, a message and an error code. The field
  \<^verbatim>\<open>errors\<close> is \<^verbatim>\<open>null\<close> and the flags \<^verbatim>\<open>success\<close> and \<^verbatim>\<open>isOperational\<close> are constant
  in every error built below, so they are left out.
\<close>

record ApiError =
  statusCode :: http_status
  message :: string
  errorCode :: error_code

definition badRequest :: "string \<Rightarrow> ApiError" where
  "badRequest msg = \<lparr>statusCode = BAD_REQUEST, message = msg, errorCode = VALIDATION_ERROR\<rparr>"

definition unauthorized :: "string \<Rightarrow> ApiError" where
  "unauthorized msg = \<lparr>statusCode = UNAUTHORIZED, message = msg, errorCode = AUTH_TOKEN_INVALID\<rparr>"

definition forbidden :: "string \<Rightarrow> ApiError" where
  "forbidden msg =
     \<lparr>statusCode = FORBIDDEN, message = msg, errorCode = AUTH_INSUFFICIENT_PERMISSIONS\<rparr>"

definition notFound :: "string \<Rightarrow> ApiError" where
  "notFound msg = \<lparr>statusCode = NOT_FOUND, message = msg, errorCode = DB_RECORD_NOT_FOUND\<rparr>"

definition conflict :: "string \<Rightarrow> ApiError" where
  "conflict msg = \<lparr>statusCode = CONFLICT, message = msg, errorCode = DB_DUPLICATE_ENTRY\<rparr>"

definition internal :: "string \<Rightarrow> ApiError" where
  "internal msg =
     \<lparr>statusCode = INTERNAL_SERVER_ERROR, message = msg, errorCode = INTERNAL_ERROR\<rparr>"

definition invalidCredentials :: ApiError where
  "invalidCredentials =
     \<lparr>statusCode = UNAUTHORIZED, message = ''Invalid email or password'',
      errorCode = AUTH_INVALID_CREDENTIALS\<rparr>"

definition tokenExpired :: ApiError where
  "tokenExpired =
     \<lparr>statusCode = UNAUTHORIZED, message = ''Token has expired'',
      errorCode = AUTH_TOKEN_EXPIRED\<rparr>"

definition invalidToken :: ApiError where
  "invalidToken =
     \<lparr>statusCode = UNAUTHORIZED, message = ''Invalid or malformed token'',
      errorCode = AUTH_TOKEN_INVALID\<rparr>"

definition accountSuspended :: ApiError where
  "accountSuspended =
     \<lparr>statusCode = FORBIDDEN, message = ''Account has been suspended'',
      errorCode = AUTH_ACCOUNT_SUSPENDED\<rparr>"

text \<open>
  What a service function can throw: an \<^verbatim>\<open>ApiError\<close>, a Prisma request error with its
  code (\<^verbatim>\<open>P2025\<close>: the record to update does not exist), or the \<^verbatim>\<open>TypeError\<close> of reading
  a property of \<^verbatim>\<open>null\<close>.
\<close>

datatype thrown = Api ApiError | PrismaClientKnownRequestError string | TypeError

section \<open>The jsonwebtoken library, symbolically\<close>

text \<open>
  A token string is either a well-formed signed token or some other string (the empty
  string included). A signed token is determined by the payload, the claims the signer
  adds (issued-at and expiry in whole seconds, issuer, audience) and the secret it was
  signed with: signing is deterministic, and only the holder of the secret produces a
  token that verifies under it. The payload has the fields \<^verbatim>\<open>generateTokens\<close> writes;
  the refresh profile leaves role, company and status out. A presented token may also
  carry a not-before time (\<^verbatim>\<open>nbf\<close>); the tokens signed here carry none.
\<close>

record payload =
  p_id :: string
  p_email :: string
  p_role :: "role option"
  p_companyId :: "string option"
  p_status :: "status option"

datatype token =
  Jwt (jwt_payload: payload) (iat: nat) (exp: nat) (iss: string) (aud: string)
      (signed_with: string) (nbf: "nat option")
  | NotJwt string

text \<open>The decoded claims that \<^verbatim>\<open>jwt.verify\<close> returns.\<close>

record decoded =
  d_payload :: payload
  d_iat :: nat
  d_exp :: nat
  d_iss :: string
  d_aud :: string
  d_nbf :: "nat option"

text \<open>
  The errors of the library by name: the two names the callers test for, and the error of
  a token presented before its not-before time, which the callers handle in their last
  branch with every other error.
\<close>

datatype jwt_error = TokenExpiredError | JsonWebTokenError | NotBeforeError

text \<open>
  \<^verbatim>\<open>jwt.sign(payload, secret, {expiresIn, issuer, audience})\<close> at clock second \<open>clock\<close>;
  it throws (\<open>None\<close>) when the secret has no value.
\<close>

definition jwt_sign :: "payload \<Rightarrow> string \<Rightarrow> nat \<Rightarrow> string \<Rightarrow> string \<Rightarrow> nat \<Rightarrow> token option" where
  "jwt_sign p secret expiresIn issuer audience clock =
     (if secret = [] then None
      else Some (Jwt p clock (clock + expiresIn) issuer audience secret None))"

text \<open>
  \<^verbatim>\<open>jwt.verify(token, secret, {issuer, audience})\<close> at clock second \<open>clock\<close>, in the
  library's order: the shape of the token, the signature, the not-before time
  (\<^verbatim>\<open>nbf > clock\<close>), the expiry (\<^verbatim>\<open>clock >= exp\<close>), the audience, the issuer.
\<close>

definition jwt_verify :: "token \<Rightarrow> string \<Rightarrow> string \<Rightarrow> string \<Rightarrow> nat \<Rightarrow> jwt_error + decoded" where
  "jwt_verify t secret issuer audience clock =
     (case t of
        NotJwt s \<Rightarrow> Inl JsonWebTokenError
      | Jwt p i e is au k nb \<Rightarrow>
          if secret = [] then Inl JsonWebTokenError
          else if k \<noteq> secret then Inl JsonWebTokenError
          else if (case nb of None \<Rightarrow> False | Some n \<Rightarrow> clock < n) then Inl NotBeforeError
          else if e \<le> clock then Inl TokenExpiredError
          else if au \<noteq> audience then Inl JsonWebTokenError
          else if is \<noteq> issuer then Inl JsonWebTokenError
          else Inr \<lparr>d_payload = p, d_iat = i, d_exp = e, d_iss = is, d_aud = au,
                     d_nbf = nb\<rparr>)"

section \<open>utils/tokens.js\<close>

text \<open>
  The environment holds the two secrets, each possibly unset. The module reads them once:
  the refresh secret falls back to the access secret when it is unset or empty, and the
  module refuses to load without an access secret.
\<close>

record env =
  env_JWT_SECRET :: "string option"
  env_JWT_REFRESH_SECRET :: "string option"

record tokens_js =
  JWT_SECRET :: string
  JWT_REFRESH_SECRET :: string
  JWT_CONFIG :: jwt_config

definition load_tokens_js :: "env \<Rightarrow> jwt_config \<Rightarrow> tokens_js option" where
  "load_tokens_js e c =
     (case env_JWT_SECRET e of
        None \<Rightarrow> None
      | Some secret \<Rightarrow>
          if secret = [] then None
          else Some \<lparr>JWT_SECRET = secret,
                      JWT_REFRESH_SECRET =
                        (case env_JWT_REFRESH_SECRET e of
                           None \<Rightarrow> secret
                         | Some r \<Rightarrow> if r = [] then secret else r),
                      JWT_CONFIG = c\<rparr>)"

text \<open>The clock is in milliseconds (\<^verbatim>\<open>Date.now()\<close>); the library stamps whole seconds.\<close>

definition clock_of :: "nat \<Rightarrow> nat" where
  "clock_of now = now div 1000"

definition generateAccessToken :: "tokens_js \<Rightarrow> nat \<Rightarrow> payload \<Rightarrow> thrown + token" where
  "generateAccessToken m now p =
     (case jwt_sign p (JWT_SECRET m) (ACCESS_TOKEN_EXPIRY (JWT_CONFIG m))
             (ISSUER (JWT_CONFIG m)) (AUDIENCE (JWT_CONFIG m)) (clock_of now) of
        Some t \<Rightarrow> Inr t
      | None \<Rightarrow> Inl (Api (internal ''Failed to generate access token'')))"

definition generateRefreshToken :: "tokens_js \<Rightarrow> nat \<Rightarrow> payload \<Rightarrow> thrown + token" where
  "generateRefreshToken m now p =
     (case jwt_sign p (JWT_REFRESH_SECRET m) (REFRESH_TOKEN_EXPIRY (JWT_CONFIG m))
             (ISSUER (JWT_CONFIG m)) (AUDIENCE (JWT_CONFIG m)) (clock_of now) of
        Some t \<Rightarrow> Inr t
      | None \<Rightarrow> Inl (Api (internal ''Failed to generate refresh token'')))"

definition verifyAccessToken :: "tokens_js \<Rightarrow> nat \<Rightarrow> token \<Rightarrow> thrown + decoded" where
  "verifyAccessToken m now t =
     (case jwt_verify t (JWT_SECRET m) (ISSUER (JWT_CONFIG m)) (AUDIENCE (JWT_CONFIG m))
             (clock_of now) of
        Inr d \<Rightarrow> Inr d
      | Inl TokenExpiredError \<Rightarrow> Inl (Api tokenExpired)
      | Inl JsonWebTokenError \<Rightarrow> Inl (Api invalidToken)
      | Inl NotBeforeError \<Rightarrow> Inl (Api (unauthorized ''Token verification failed'')))"

definition verifyRefreshToken :: "tokens_js \<Rightarrow> nat \<Rightarrow> token \<Rightarrow> thrown + decoded" where
  "verifyRefreshToken m now t =
     (case jwt_verify t (JWT_REFRESH_SECRET m) (ISSUER (JWT_CONFIG m))
             (AUDIENCE (JWT_CONFIG m)) (clock_of now) of
        Inr d \<Rightarrow> Inr d
      | Inl TokenExpiredError \<Rightarrow> Inl (Api tokenExpired)
      | Inl JsonWebTokenError \<Rightarrow> Inl (Api invalidToken)
      | Inl NotBeforeError \<Rightarrow> Inl (Api (unauthorized ''Refresh token verification failed'')))"

section \<open>utils/hash.js\<close>

text \<open>
  bcrypt, symbolically: a hash is determined by the salt and the first 72 bytes of the
  password (bcrypt reads no more), and a password compares equal to a hash exactly when
  its first 72 bytes are those that were hashed. The salt that \<^verbatim>\<open>bcrypt.genSalt\<close> draws
  is an argument.
\<close>

datatype pwhash = Bcrypt (salt: nat) (hashed: string)

definition hashPassword :: "nat \<Rightarrow> string \<Rightarrow> pwhash" where
  "hashPassword s password = Bcrypt s (take 72 password)"

definition comparePassword :: "string \<Rightarrow> pwhash \<Rightarrow> bool" where
  "comparePassword password h = (hashed h = take 72 password)"

section \<open>The store and the cache\<close>

text \<open>
  JavaScript values of the objects the services return: a row read from the store is an
  object, a list of named values in column order.
\<close>

datatype jsvalue =
  JNull | JBool bool | JNum nat | JStr string | JRole role | JStatus status
  | JHash pwhash | JToken token | JObj "(string \<times> jsvalue) list"

type_synonym jsobject = "(string \<times> jsvalue) list"

text \<open>
  The tables of the store, with the columns the services read and write. The columns of
  a user that no function below touches (avatar, verification flags and so on) are kept
  as they are in \<open>other_columns\<close>. Timestamps are milliseconds.
\<close>

record user =
  id :: string
  email :: string
  password :: pwhash
  name :: string
  phone :: "string option"
  role :: role
  status :: status
  companyId :: string
  refreshToken :: "token option"
  lastLoginAt :: "nat option"
  passwordChangedAt :: "nat option"
  createdAt :: nat
  other_columns :: jsobject

record company =
  id :: string
  name :: string
  isActive :: bool

record permission =
  id :: string
  module :: string
  action :: string
  resource :: string
  description :: string

record userPermission =
  userId :: string
  permissionId :: string
  granted :: bool
  grantedAt :: nat
  grantedBy :: string

type_synonym perm_tuple = "string \<times> string \<times> string"

text \<open>
  The state: the four tables, and Redis: whether the client object exists (the module
  keeps \<^verbatim>\<open>null\<close> when it could not be created) and what the server holds. A cached
  value is stored with the time at which it expires.
\<close>

record state =
  users :: "user list"
  companies :: "company list"
  permissions :: "permission list"
  userPermissions :: "userPermission list"
  redis_client :: bool
  redis :: "string \<rightharpoonup> (perm_tuple list \<times> nat)"

definition find_user_by_id :: "state \<Rightarrow> string \<Rightarrow> user option" where
  "find_user_by_id s uid = find (\<lambda>u. user.id u = uid) (users s)"

definition find_user_by_email :: "state \<Rightarrow> string \<Rightarrow> user option" where
  "find_user_by_email s e = find (\<lambda>u. user.email u = e) (users s)"

definition find_company :: "state \<Rightarrow> string \<Rightarrow> company option" where
  "find_company s cid = find (\<lambda>c. company.id c = cid) (companies s)"

definition find_permission :: "state \<Rightarrow> string \<Rightarrow> permission option" where
  "find_permission s pid = find (\<lambda>p. permission.id p = pid) (permissions s)"

text \<open>
  \<^verbatim>\<open>prisma.user.update({where: {id}, data})\<close>: the row is rewritten; updating a row
  that does not exist is the request error \<^verbatim>\<open>P2025\<close>.
\<close>

definition user_update :: "string \<Rightarrow> (user \<Rightarrow> user) \<Rightarrow> state \<Rightarrow> thrown + state" where
  "user_update uid f s =
     (case find_user_by_id s uid of
        None \<Rightarrow> Inl (PrismaClientKnownRequestError ''P2025'')
      | Some u \<Rightarrow>
          Inr (s\<lparr>users := map (\<lambda>u. if user.id u = uid then f u else u) (users s)\<rparr>))"

subsection \<open>config/redis.js\<close>

text \<open>
  Each helper issues one Redis command. Whether that command succeeds is an argument of
  the call (\<open>cmd_ok\<close>): a command that fails throws, the helper catches the error, logs it
  and returns \<^verbatim>\<open>false\<close> or \<^verbatim>\<open>null\<close>, and the server keeps what it held. Without a client
  no command is issued.
\<close>

definition setCache ::
  "state \<Rightarrow> bool \<Rightarrow> nat \<Rightarrow> string \<Rightarrow> perm_tuple list \<Rightarrow> nat \<Rightarrow> bool \<times> state" where
  "setCache s cmd_ok now key v expiryInSeconds =
     (if \<not> redis_client s then (False, s)
      else if cmd_ok
      then (True, s\<lparr>redis := (redis s)(key \<mapsto> (v, now + expiryInSeconds * 1000))\<rparr>)
      else (False, s))"

definition getCache :: "state \<Rightarrow> bool \<Rightarrow> nat \<Rightarrow> string \<Rightarrow> perm_tuple list option" where
  "getCache s cmd_ok now key =
     (if \<not> redis_client s then None
      else if cmd_ok
      then (case redis s key of
              None \<Rightarrow> None
            | Some (v, expires) \<Rightarrow> if now < expires then Some v else None)
      else None)"

definition deleteCache :: "state \<Rightarrow> bool \<Rightarrow> string \<Rightarrow> bool \<times> state" where
  "deleteCache s cmd_ok key =
     (if \<not> redis_client s then (False, s)
      else if cmd_ok then (True, s\<lparr>redis := (redis s)(key := None)\<rparr>)
      else (False, s))"

text \<open>
  Modelled from the spec: \<^verbatim>\<open>CACHE_KEYS.USER_PERMISSIONS\<close> of \<^verbatim>\<open>config/constants.js\<close>, which
  is not among the sources: the namespaced key of an identity's permissions, the one the
  services delete as \<^verbatim>\<open>user:${userId}:permissions\<close>.
\<close>

definition USER_PERMISSIONS :: "string \<Rightarrow> string" where
  "USER_PERMISSIONS uid = ''user:'' @ uid @ '':permissions''"

section \<open>The permission middleware\<close>

text \<open>
  \<^verbatim>\<open>getUserPermissions\<close>: the cached list when there is one (an empty list is a hit
  too), otherwise the granted assignments of the identity joined with their permissions,
  which are then cached. An assignment always refers to an existing permission (the
  store deletes the assignments of a deleted permission), so a row without one adds
  nothing. The outcomes of the read and of the write of the cache are arguments.
\<close>

definition getUserPermissions ::
  "nat \<Rightarrow> nat \<Rightarrow> bool \<Rightarrow> bool \<Rightarrow> state \<Rightarrow> string \<Rightarrow> perm_tuple list \<times> state" where
  "getUserPermissions ttl now get_ok set_ok s uid =
     (let cacheKey = USER_PERMISSIONS uid in
      case getCache s get_ok now cacheKey of
        Some cachedPermissions \<Rightarrow> (cachedPermissions, s)
      | None \<Rightarrow>
          let rows = filter (\<lambda>up. userId up = uid \<and> granted up) (userPermissions s);
              perms = concat (map (\<lambda>up. case find_permission s (permissionId up) of
                                            None \<Rightarrow> []
                                          | Some p \<Rightarrow> [(module p, action p, resource p)]) rows)
          in (perms, snd (setCache s set_ok now cacheKey perms ttl)))"

definition hasPermission :: "perm_tuple list \<Rightarrow> string \<Rightarrow> string \<Rightarrow> string \<Rightarrow> bool" where
  "hasPermission userPerms m a r =
     list_ex (\<lambda>(pm, pa, pr). pm = m \<and> pa = a \<and> pr = r) userPerms"

definition checkPermission ::
  "nat \<Rightarrow> nat \<Rightarrow> bool \<Rightarrow> bool \<Rightarrow> state \<Rightarrow> string \<Rightarrow> string \<Rightarrow> string \<Rightarrow> string
     \<Rightarrow> bool \<times> state" where
  "checkPermission ttl now get_ok set_ok s uid m a r =
     (case find_user_by_id s uid of
        None \<Rightarrow> (False, s)
      | Some u \<Rightarrow>
          if user.role u = SUPERADMIN then (True, s)
          else (let (userPerms, s') = getUserPermissions ttl now get_ok set_ok s uid
                in (hasPermission userPerms m a r, s')))"

section \<open>services/permission.service.js\<close>

record assign_result =
  ar_userId :: string
  assignedCount :: nat
  ar_permissions :: "(string \<times> string \<times> string \<times> string) list"

record revoke_result =
  rr_userId :: string
  revokedCount :: nat

text \<open>\<^verbatim>\<open>prisma.userPermission.upsert\<close> on the key (user, permission).\<close>

definition upsert_userPermission :: "nat \<Rightarrow> string \<Rightarrow> string \<Rightarrow> string \<Rightarrow> state \<Rightarrow> state" where
  "upsert_userPermission now uid byId pid s =
     (if list_ex (\<lambda>up. userId up = uid \<and> permissionId up = pid) (userPermissions s)
      then s\<lparr>userPermissions :=
               map (\<lambda>up. if userId up = uid \<and> permissionId up = pid
                          then up\<lparr>granted := True, grantedAt := now, grantedBy := byId\<rparr>
                          else up) (userPermissions s)\<rparr>
      else s\<lparr>userPermissions :=
               userPermissions s @
               [\<lparr>userId = uid, permissionId = pid, granted = True, grantedAt = now,
                 grantedBy = byId\<rparr>]\<rparr>)"

text \<open>
  Both mutations delete the identity's cache entry last and do not look at what
  \<^verbatim>\<open>deleteCache\<close> returns; whether its command succeeds is the argument \<open>del_ok\<close>.
\<close>

definition assignPermissionsToUser ::
  "nat \<Rightarrow> bool \<Rightarrow> state \<Rightarrow> string \<Rightarrow> string list \<Rightarrow> string
     \<Rightarrow> (thrown + assign_result) \<times> state" where
  "assignPermissionsToUser now del_ok s uid permissionIds byId =
     (case find_user_by_id s uid of
        None \<Rightarrow> (Inl (Api (notFound ''User not found'')), s)
      | Some u \<Rightarrow>
          if user.role u = SUPERADMIN
          then (Inl (Api (badRequest ''Cannot assign permissions to superadmin users'')), s)
          else
            (let perms = filter (\<lambda>p. permission.id p \<in> set permissionIds) (permissions s) in
             if length perms \<noteq> length permissionIds
             then (Inl (Api (badRequest ''One or more permission IDs are invalid'')), s)
             else
               (let s1 = fold (upsert_userPermission now uid byId) permissionIds s;
                    s2 = snd (deleteCache s1 del_ok (''user:'' @ uid @ '':permissions''))
                in (Inr \<lparr>ar_userId = uid, assignedCount = length permissionIds,
                          ar_permissions =
                            map (\<lambda>p. (permission.id p, module p, action p, resource p)) perms\<rparr>,
                    s2))))"

definition revokePermissionsFromUser ::
  "bool \<Rightarrow> state \<Rightarrow> string \<Rightarrow> string list \<Rightarrow> string \<Rightarrow> (thrown + revoke_result) \<times> state" where
  "revokePermissionsFromUser del_ok s uid permissionIds byId =
     (case find_user_by_id s uid of
        None \<Rightarrow> (Inl (Api (notFound ''User not found'')), s)
      | Some u \<Rightarrow>
          (let doomed = (\<lambda>up. userId up = uid \<and> permissionId up \<in> set permissionIds);
               s1 = s\<lparr>userPermissions := filter (\<lambda>up. \<not> doomed up) (userPermissions s)\<rparr>;
               s2 = snd (deleteCache s1 del_ok (''user:'' @ uid @ '':permissions''))
           in (Inr \<lparr>rr_userId = uid,
                     revokedCount = length (filter doomed (userPermissions s))\<rparr>,
               s2)))"

section \<open>services/auth.service.js\<close>

text \<open>
  Every operation takes the state and returns its outcome with the state it leaves
  behind; an outcome is the returned value or what was thrown. The time of the call is an
  argument. Log output is not part of the state. A user is read together with its company
  (\<^verbatim>\<open>include: {company}\<close>); reading \<^verbatim>\<open>user.company.isActive\<close> of a user without one is a
  \<^verbatim>\<open>TypeError\<close>.
\<close>

text \<open>
  \<^verbatim>\<open>String.prototype.toLowerCase\<close> on the ASCII text that an email is.
\<close>

definition toLowerCase_char :: "char \<Rightarrow> char" where
  "toLowerCase_char c =
     (let n = (of_char c :: nat) in if 65 \<le> n \<and> n \<le> 90 then char_of (n + 32) else c)"

definition toLowerCase :: "string \<Rightarrow> string" where
  "toLowerCase str = map toLowerCase_char str"

record tokens =
  accessToken :: token
  refreshToken :: token

definition generateTokens :: "tokens_js \<Rightarrow> nat \<Rightarrow> user \<Rightarrow> thrown + tokens" where
  "generateTokens m now u =
     (case generateAccessToken m now
             \<lparr>p_id = user.id u, p_email = user.email u, p_role = Some (user.role u),
              p_companyId = Some (companyId u), p_status = Some (user.status u)\<rparr> of
        Inl e \<Rightarrow> Inl e
      | Inr a \<Rightarrow>
          (case generateRefreshToken m now
                  \<lparr>p_id = user.id u, p_email = user.email u, p_role = None,
                   p_companyId = None, p_status = None\<rparr> of
             Inl e \<Rightarrow> Inl e
           | Inr r \<Rightarrow> Inr \<lparr>accessToken = a, refreshToken = r\<rparr>))"

text \<open>Rows as the objects Prisma returns.\<close>

definition js_opt :: "('a \<Rightarrow> jsvalue) \<Rightarrow> 'a option \<Rightarrow> jsvalue" where
  "js_opt f v = (case v of None \<Rightarrow> JNull | Some x \<Rightarrow> f x)"

definition user_object :: "user \<Rightarrow> jsobject" where
  "user_object u =
     [(''id'', JStr (user.id u)), (''email'', JStr (user.email u)),
      (''password'', JHash (password u)), (''name'', JStr (user.name u)),
      (''phone'', js_opt JStr (phone u)), (''role'', JRole (user.role u)),
      (''status'', JStatus (user.status u)), (''companyId'', JStr (companyId u)),
      (''refreshToken'', js_opt JToken (user.refreshToken u)),
      (''lastLoginAt'', js_opt JNum (lastLoginAt u)),
      (''passwordChangedAt'', js_opt JNum (passwordChangedAt u)),
      (''createdAt'', JNum (createdAt u))] @ other_columns u"

text \<open>The rest of an object after the named properties are taken out of it.\<close>

definition omit :: "string list \<Rightarrow> jsobject \<Rightarrow> jsobject" where
  "omit ks obj = filter (\<lambda>(k, v). k \<notin> set ks) obj"

definition has_property :: "jsobject \<Rightarrow> string \<Rightarrow> bool" where
  "has_property obj k = list_ex (\<lambda>(k', v). k' = k) obj"

record userData =
  ud_email :: string
  ud_password :: string
  ud_name :: string
  ud_phone :: "string option"
  ud_role :: "role option"
  ud_companyId :: string

record auth_result =
  res_user :: jsobject
  res_tokens :: tokens

text \<open>
  \<^verbatim>\<open>register\<close>. The identifier the store gives the new row, the salt and the default
  values of the columns that the function does not set are arguments. The store refuses
  a second row with the same identifier (\<^verbatim>\<open>P2002\<close>).
\<close>

definition register ::
  "tokens_js \<Rightarrow> nat \<Rightarrow> nat \<Rightarrow> string \<Rightarrow> jsobject \<Rightarrow> state \<Rightarrow> userData
     \<Rightarrow> (thrown + auth_result) \<times> state" where
  "register m now slt newId defaults s d =
     (case find_user_by_email s (toLowerCase (ud_email d)) of
        Some existingUser \<Rightarrow> (Inl (Api (conflict ''User with this email already exists'')), s)
      | None \<Rightarrow>
          (case find_company s (ud_companyId d) of
             None \<Rightarrow> (Inl (Api (notFound ''Company not found'')), s)
           | Some c \<Rightarrow>
               if \<not> isActive c
               then (Inl (Api (badRequest ''Cannot register user for inactive company'')), s)
               else if find_user_by_id s newId \<noteq> None
               then (Inl (PrismaClientKnownRequestError ''P2002''), s)
               else
                 (let u = \<lparr>user.id = newId, email = toLowerCase (ud_email d),
                           password = hashPassword slt (ud_password d), name = ud_name d,
                           phone = (case ud_phone d of
                                      None \<Rightarrow> None
                                    | Some ph \<Rightarrow> if ph = [] then None else Some ph),
                           role = (case ud_role d of None \<Rightarrow> VIEWER | Some r \<Rightarrow> r),
                           status = ACTIVE, companyId = ud_companyId d, refreshToken = None,
                           lastLoginAt = None, passwordChangedAt = None, createdAt = now,
                           other_columns = defaults\<rparr>;
                      s1 = s\<lparr>users := users s @ [u]\<rparr>;
                      selected =
                        [(''id'', JStr (user.id u)), (''email'', JStr (user.email u)),
                         (''name'', JStr (user.name u)), (''phone'', js_opt JStr (phone u)),
                         (''role'', JRole (user.role u)), (''status'', JStatus (user.status u)),
                         (''companyId'', JStr (companyId u)), (''createdAt'', JNum (createdAt u)),
                         (''company'', JObj [(''id'', JStr (company.id c)),
                                             (''name'', JStr (company.name c))])]
                  in case generateTokens m now u of
                       Inl e \<Rightarrow> (Inl e, s1)
                     | Inr t \<Rightarrow>
                         (case user_update (user.id u)
                                 (\<lambda>u. u\<lparr>user.refreshToken := Some (tokens.refreshToken t)\<rparr>) s1 of
                            Inl e \<Rightarrow> (Inl e, s1)
                          | Inr s2 \<Rightarrow> (Inr \<lparr>res_user = selected, res_tokens = t\<rparr>, s2)))))"

definition login ::
  "tokens_js \<Rightarrow> nat \<Rightarrow> state \<Rightarrow> string \<Rightarrow> string \<Rightarrow> (thrown + auth_result) \<times> state" where
  "login m now s mail pw =
     (case find_user_by_email s (toLowerCase mail) of
        None \<Rightarrow> (Inl (Api invalidCredentials), s)
      | Some u \<Rightarrow>
          if \<not> comparePassword pw (password u) then (Inl (Api invalidCredentials), s)
          else if user.status u = INACTIVE
          then (Inl (Api (forbidden ''Account is inactive. Please contact administrator.'')), s)
          else if user.status u = SUSPENDED then (Inl (Api accountSuspended), s)
          else
            (case find_company s (companyId u) of
               None \<Rightarrow> (Inl TypeError, s)
             | Some c \<Rightarrow>
                 if \<not> isActive c then (Inl (Api (forbidden ''Company account is inactive'')), s)
                 else
                   (case generateTokens m now u of
                      Inl e \<Rightarrow> (Inl e, s)
                    | Inr t \<Rightarrow>
                        (case user_update (user.id u)
                                (\<lambda>u. u\<lparr>lastLoginAt := Some now,
                                        user.refreshToken := Some (tokens.refreshToken t)\<rparr>) s of
                           Inl e \<Rightarrow> (Inl e, s)
                         | Inr s1 \<Rightarrow>
                             (Inr \<lparr>res_user =
                                     omit [''password'', ''refreshToken'']
                                       (user_object u @
                                        [(''company'',
                                          JObj [(''id'', JStr (company.id c)),
                                                (''name'', JStr (company.name c)),
                                                (''isActive'', JBool (isActive c))])]),
                                   res_tokens = t\<rparr>,
                              s1)))))"

definition refreshAccessToken ::
  "tokens_js \<Rightarrow> nat \<Rightarrow> state \<Rightarrow> token \<Rightarrow> (thrown + tokens) \<times> state" where
  "refreshAccessToken m now s presented =
     (if presented = NotJwt [] then (Inl (Api (badRequest ''Refresh token is required'')), s)
      else
        (case verifyRefreshToken m now presented of
           Inl e \<Rightarrow> (Inl e, s)
         | Inr d \<Rightarrow>
             (case find_user_by_id s (p_id (d_payload d)) of
                None \<Rightarrow> (Inl (Api (unauthorized ''User not found'')), s)
              | Some u \<Rightarrow>
                  if user.refreshToken u \<noteq> Some presented
                  then (Inl (Api (unauthorized ''Invalid refresh token'')), s)
                  else if user.status u \<noteq> ACTIVE
                  then (Inl (Api (forbidden ''Account is not active'')), s)
                  else
                    (case find_company s (companyId u) of
                       None \<Rightarrow> (Inl TypeError, s)
                     | Some c \<Rightarrow>
                         if \<not> isActive c
                         then (Inl (Api (forbidden ''Company account is inactive'')), s)
                         else
                           (case generateTokens m now u of
                              Inl e \<Rightarrow> (Inl e, s)
                            | Inr t \<Rightarrow>
                                (case user_update (user.id u)
                                        (\<lambda>u. u\<lparr>user.refreshToken :=
                                                  Some (tokens.refreshToken t)\<rparr>) s of
                                   Inl e \<Rightarrow> (Inl e, s)
                                 | Inr s1 \<Rightarrow> (Inr t, s1)))))))"

definition logout :: "bool \<Rightarrow> state \<Rightarrow> string \<Rightarrow> (thrown + unit) \<times> state" where
  "logout del_ok s uid =
     (case user_update uid (\<lambda>u. u\<lparr>user.refreshToken := None\<rparr>) s of
        Inl e \<Rightarrow> (Inl e, s)
      | Inr s1 \<Rightarrow>
          (Inr (), snd (deleteCache s1 del_ok (''user:'' @ uid @ '':permissions''))))"

definition changePassword ::
  "nat \<Rightarrow> nat \<Rightarrow> state \<Rightarrow> string \<Rightarrow> string \<Rightarrow> string \<Rightarrow> (thrown + unit) \<times> state" where
  "changePassword now slt s uid currentPassword newPassword =
     (case find_user_by_id s uid of
        None \<Rightarrow> (Inl (Api (notFound ''User not found'')), s)
      | Some u \<Rightarrow>
          if \<not> comparePassword currentPassword (password u)
          then (Inl (Api (badRequest ''Current password is incorrect'')), s)
          else
            (case user_update uid
                    (\<lambda>u. u\<lparr>password := hashPassword slt newPassword,
                            passwordChangedAt := Some now,
                            user.refreshToken := None\<rparr>) s of
               Inl e \<Rightarrow> (Inl e, s)
             | Inr s1 \<Rightarrow> (Inr (), s1)))"

section \<open>validations/auth.validation.js and the change-password route\<close>

text \<open>
  \<^verbatim>\<open>passwordPattern\<close>: at least one lower-case letter, one upper-case letter, one digit
  and one of the special characters, nothing but these, at least eight characters.
\<close>

definition is_lower :: "char \<Rightarrow> bool" where
  "is_lower c = (let n = (of_char c :: nat) in 97 \<le> n \<and> n \<le> 122)"

definition is_upper :: "char \<Rightarrow> bool" where
  "is_upper c = (let n = (of_char c :: nat) in 65 \<le> n \<and> n \<le> 90)"

definition is_digit :: "char \<Rightarrow> bool" where
  "is_digit c = (let n = (of_char c :: nat) in 48 \<le> n \<and> n \<le> 57)"

definition is_special :: "char \<Rightarrow> bool" where
  "is_special c = (c \<in> set ''@$!%*?&#'')"

definition passwordPattern :: "string \<Rightarrow> bool" where
  "passwordPattern p =
     (list_ex is_lower p \<and> list_ex is_upper p \<and> list_ex is_digit p \<and> list_ex is_special p
      \<and> list_all (\<lambda>c. is_lower c \<or> is_upper c \<or> is_digit c \<or> is_special c) p
      \<and> 8 \<le> length p)"

text \<open>
  \<^verbatim>\<open>changePasswordSchema\<close> applied to a request body, each property of which may be
  missing: the validated values when Joi reports no error. The new password must differ
  from the current one (\<^verbatim>\<open>.invalid(Joi.ref('currentPassword'))\<close>) and be repeated in the
  confirmation.
\<close>

record changePasswordBody =
  body_currentPassword :: "string option"
  body_newPassword :: "string option"
  body_confirmPassword :: "string option"

definition changePasswordSchema :: "changePasswordBody \<Rightarrow> (string \<times> string) option" where
  "changePasswordSchema b =
     (case body_currentPassword b of
        None \<Rightarrow> None
      | Some cur \<Rightarrow>
          (case body_newPassword b of
             None \<Rightarrow> None
           | Some new \<Rightarrow>
               if cur \<noteq> [] \<and> 8 \<le> length new \<and> length new \<le> 128 \<and> passwordPattern new
                  \<and> new \<noteq> cur \<and> body_confirmPassword b = Some new
               then Some (cur, new) else None))"

text \<open>
  The route \<^verbatim>\<open>POST /change-password\<close> for an authenticated identity: the body is
  validated, and only a valid body reaches the service.
\<close>

definition post_change_password ::
  "nat \<Rightarrow> nat \<Rightarrow> state \<Rightarrow> string \<Rightarrow> changePasswordBody \<Rightarrow> (thrown + unit) \<times> state" where
  "post_change_password now slt s uid b =
     (case changePasswordSchema b of
        None \<Rightarrow> (Inl (Api (badRequest ''Validation failed'')), s)
      | Some (cur, new) \<Rightarrow> changePassword now slt s uid cur new)"

section \<open>Properties of tokens and of the store\<close>

text \<open>
  What the claims say of a presented token: it is well formed and signed with a given
  secret, it is presented before its not-before time, it is past its expiry at a given
  time, it names the configured issuer and audience, it names an identity as its subject;
  and the claims it carries.
\<close>

definition well_signed :: "string \<Rightarrow> token \<Rightarrow> bool" where
  "well_signed secret t =
     (case t of NotJwt s \<Rightarrow> False | Jwt p i e is au k nb \<Rightarrow> secret \<noteq> [] \<and> k = secret)"

definition not_yet_active :: "nat \<Rightarrow> token \<Rightarrow> bool" where
  "not_yet_active now t =
     (case t of
        NotJwt s \<Rightarrow> False
      | Jwt p i e is au k nb \<Rightarrow> (case nb of None \<Rightarrow> False | Some n \<Rightarrow> clock_of now < n))"

definition token_claims :: "token \<Rightarrow> decoded" where
  "token_claims t =
     \<lparr>d_payload = jwt_payload t, d_iat = iat t, d_exp = exp t, d_iss = iss t, d_aud = aud t,
      d_nbf = nbf t\<rparr>"

definition past_expiry :: "nat \<Rightarrow> token \<Rightarrow> bool" where
  "past_expiry now t =
     (case t of NotJwt s \<Rightarrow> False | Jwt p i e is au k nb \<Rightarrow> e \<le> clock_of now)"

definition issuer_audience_ok :: "jwt_config \<Rightarrow> token \<Rightarrow> bool" where
  "issuer_audience_ok c t =
     (case t of NotJwt s \<Rightarrow> False | Jwt p i e is au k nb \<Rightarrow> is = ISSUER c \<and> au = AUDIENCE c)"

definition token_subject :: "token \<Rightarrow> string option" where
  "token_subject t = (case t of NotJwt s \<Rightarrow> None | Jwt p i e is au k nb \<Rightarrow> Some (p_id p))"

text \<open>
  The refresh token stored for an identity was issued to that identity. Registration,
  login and refresh store no other kind of token (see \<open>tokens_belong_login\<close> and its
  companions below).
\<close>

definition token_belongs :: "user \<Rightarrow> bool" where
  "token_belongs u =
     (case user.refreshToken u of None \<Rightarrow> True | Some t \<Rightarrow> token_subject t = Some (user.id u))"

definition tokens_belong :: "state \<Rightarrow> bool" where
  "tokens_belong s = list_all token_belongs (users s)"

text \<open>
  The uniqueness constraints of the permission table: the identifier is the primary key,
  and (module, action, resource) is the unique key that \<^verbatim>\<open>createPermission\<close> looks up.
\<close>

definition perm_triple :: "permission \<Rightarrow> perm_tuple" where
  "perm_triple p = (module p, action p, resource p)"

definition store_unique :: "state \<Rightarrow> bool" where
  "store_unique s =
     (distinct (map permission.id (permissions s)) \<and> distinct (map perm_triple (permissions s)))"

section \<open>Example data\<close>

definition example_config :: jwt_config where
  "example_config =
     \<lparr>ACCESS_TOKEN_EXPIRY = 900, REFRESH_TOKEN_EXPIRY = 604800, ISSUER = ''zirakbook'',
      AUDIENCE = ''zirakbook-users''\<rparr>"

definition shared_secret_env :: env where
  "shared_secret_env = \<lparr>env_JWT_SECRET = Some ''k-access'', env_JWT_REFRESH_SECRET = None\<rparr>"

definition shared_secret_module :: tokens_js where
  "shared_secret_module =
     \<lparr>JWT_SECRET = ''k-access'', JWT_REFRESH_SECRET = ''k-access'', JWT_CONFIG = example_config\<rparr>"

definition two_secret_module :: tokens_js where
  "two_secret_module =
     \<lparr>JWT_SECRET = ''k-access'', JWT_REFRESH_SECRET = ''k-refresh'', JWT_CONFIG = example_config\<rparr>"

definition alice_refresh_payload :: payload where
  "alice_refresh_payload =
     \<lparr>p_id = ''u1'', p_email = ''alice@example.com'', p_role = None, p_companyId = None,
      p_status = None\<rparr>"

definition root_user :: user where
  "root_user =
     \<lparr>user.id = ''u0'', email = ''root@example.com'', password = Bcrypt 3 ''Root@12345'',
      name = ''Root'', phone = None, role = SUPERADMIN, status = ACTIVE, companyId = ''c1'',
      refreshToken = None, lastLoginAt = None, passwordChangedAt = None, createdAt = 0,
      other_columns = [(''avatar'', JNull)]\<rparr>"

definition alice :: user where
  "alice =
     \<lparr>user.id = ''u1'', email = ''alice@example.com'', password = Bcrypt 7 ''Secret@123'',
      name = ''Alice'', phone = None, role = VIEWER, status = ACTIVE, companyId = ''c1'',
      refreshToken = None, lastLoginAt = None, passwordChangedAt = None, createdAt = 0,
      other_columns = [(''avatar'', JNull)]\<rparr>"

definition bob_token :: token where
  "bob_token =
     Jwt \<lparr>p_id = ''u2'', p_email = ''bob@example.com'', p_role = None, p_companyId = None,
          p_status = None\<rparr>
       50 604850 ''zirakbook'' ''zirakbook-users'' ''k-access'' None"

definition bob :: user where
  "bob =
     \<lparr>user.id = ''u2'', email = ''bob@example.com'', password = Bcrypt 8 ''Secret@456'',
      name = ''Bob'', phone = None, role = ACCOUNTANT, status = SUSPENDED, companyId = ''c1'',
      refreshToken = Some bob_token, lastLoginAt = Some 50000, passwordChangedAt = None,
      createdAt = 0, other_columns = []\<rparr>"

definition carol_token :: token where
  "carol_token =
     Jwt \<lparr>p_id = ''u3'', p_email = ''carol@example.com'', p_role = None, p_companyId = None,
          p_status = None\<rparr>
       60 604860 ''zirakbook'' ''zirakbook-users'' ''k-access'' None"

definition carol :: user where
  "carol =
     \<lparr>user.id = ''u3'', email = ''carol@example.com'', password = Bcrypt 9 ''Secret@789'',
      name = ''Carol'', phone = None, role = MANAGER, status = ACTIVE, companyId = ''c2'',
      refreshToken = Some carol_token, lastLoginAt = Some 60000, passwordChangedAt = None,
      createdAt = 0, other_columns = []\<rparr>"

definition invoices_read :: permission where
  "invoices_read =
     \<lparr>permission.id = ''p1'', module = ''sales'', action = ''read'', resource = ''invoices'',
      description = ''Read invoices''\<rparr>"

definition example_state :: state where
  "example_state =
     \<lparr>users = [root_user, alice, bob, carol],
      companies = [\<lparr>company.id = ''c1'', name = ''Acme'', isActive = True\<rparr>,
                   \<lparr>company.id = ''c2'', name = ''Dormant'', isActive = False\<rparr>],
      permissions = [invoices_read],
      userPermissions = [],
      redis_client = True,
      redis = Map.empty\<rparr>"

text \<open>The tokens Alice is issued at clock second 100.\<close>

definition alice_access_100 :: token where
  "alice_access_100 =
     Jwt \<lparr>p_id = ''u1'', p_email = ''alice@example.com'', p_role = Some VIEWER,
          p_companyId = Some ''c1'', p_status = Some ACTIVE\<rparr>
       100 1000 ''zirakbook'' ''zirakbook-users'' ''k-access'' None"

definition alice_refresh_100 :: token where
  "alice_refresh_100 =
     Jwt alice_refresh_payload 100 604900 ''zirakbook'' ''zirakbook-users'' ''k-access'' None"

text \<open>
  An access token issued to Alice at clock second 5, and a token signed with the access
  secret that is not to be used before clock second 2000 although it expires at 905.
\<close>

definition alice_access_5 :: token where
  "alice_access_5 =
     Jwt \<lparr>p_id = ''u1'', p_email = ''alice@example.com'', p_role = Some VIEWER,
          p_companyId = Some ''c1'', p_status = Some ACTIVE\<rparr>
       5 905 ''zirakbook'' ''zirakbook-users'' ''k-access'' None"

definition embargoed_token :: token where
  "embargoed_token =
     Jwt \<lparr>p_id = ''u1'', p_email = ''alice@example.com'', p_role = Some VIEWER,
          p_companyId = Some ''c1'', p_status = Some ACTIVE\<rparr>
       5 905 ''zirakbook'' ''zirakbook-users'' ''k-access'' (Some 2000)"

text \<open>The state after Alice has logged in at clock second 100.\<close>

definition alice_logged_in :: state where
  "alice_logged_in =
     snd (login shared_secret_module 100200 example_state ''alice@example.com'' ''Secret@123'')"

text \<open>The tokens Alice is issued at clock second 101.\<close>

definition alice_access_101 :: token where
  "alice_access_101 =
     Jwt \<lparr>p_id = ''u1'', p_email = ''alice@example.com'', p_role = Some VIEWER,
          p_companyId = Some ''c1'', p_status = Some ACTIVE\<rparr>
       101 1001 ''zirakbook'' ''zirakbook-users'' ''k-access'' None"

definition alice_refresh_101 :: token where
  "alice_refresh_101 =
     Jwt alice_refresh_payload 101 604901 ''zirakbook'' ''zirakbook-users'' ''k-access'' None"

text \<open>
  The state in which Alice is logged in, holds the grant, and has her permissions cached.
\<close>

definition alice_cached :: state where
  "alice_cached =
     example_state
       \<lparr>users := [root_user,
                  alice\<lparr>lastLoginAt := Some 100200,
                        user.refreshToken := Some alice_refresh_100\<rparr>,
                  bob, carol],
        userPermissions :=
          [\<lparr>userId = ''u1'', permissionId = ''p1'', granted = True, grantedAt = 10,
            grantedBy = ''u0''\<rparr>],
        redis := [''user:u1:permissions'' \<mapsto> ([(''sales'', ''read'', ''invoices'')], 9000000)]\<rparr>"

text \<open>
  Two states with a cache entry for Alice: one where she holds the grant and the cache says
  so, one where she holds nothing and the cache says so.
\<close>

definition alice_grant :: userPermission where
  "alice_grant =
     \<lparr>userId = ''u1'', permissionId = ''p1'', granted = True, grantedAt = 10, grantedBy = ''u0''\<rparr>"

definition granted_state :: state where
  "granted_state =
     example_state
       \<lparr>userPermissions := [alice_grant],
        redis := [''user:u1:permissions'' \<mapsto> ([(''sales'', ''read'', ''invoices'')], 9000000)]\<rparr>"

definition ungranted_state :: state where
  "ungranted_state =
     example_state\<lparr>redis := [''user:u1:permissions'' \<mapsto> ([], 9000000)]\<rparr>"

section \<open>Lemmas\<close>

subsection \<open>Evaluating the examples\<close>

lemmas example_defs =
  example_state_def root_user_def alice_def bob_def carol_def bob_token_def carol_token_def
  invoices_read_def shared_secret_module_def two_secret_module_def example_config_def
  alice_access_100_def alice_refresh_100_def alice_refresh_payload_def
  alice_access_101_def alice_refresh_101_def alice_grant_def granted_state_def
  ungranted_state_def alice_cached_def alice_access_5_def embargoed_token_def

lemmas service_defs =
  find_user_by_email_def find_user_by_id_def find_company_def find_permission_def
  comparePassword_def hashPassword_def generateTokens_def generateAccessToken_def
  generateRefreshToken_def jwt_sign_def jwt_verify_def verifyRefreshToken_def
  verifyAccessToken_def user_update_def clock_of_def

lemma toLowerCase_examples:
  "toLowerCase ''Nobody@Example.com'' = ''nobody@example.com''"
  "toLowerCase ''Alice@Example.com'' = ''alice@example.com''"
  "toLowerCase ''alice@example.com'' = ''alice@example.com''"
  "toLowerCase ''bob@example.com'' = ''bob@example.com''"
  "toLowerCase ''carol@example.com'' = ''carol@example.com''"
  "toLowerCase ''Dave@Example.com'' = ''dave@example.com''"
  by code_simp+

lemma alice_logged_in_eq:
  "alice_logged_in =
     example_state
       \<lparr>users := [root_user,
                  alice\<lparr>lastLoginAt := Some 100200,
                        user.refreshToken := Some alice_refresh_100\<rparr>,
                  bob, carol]\<rparr>"
  by (simp add: alice_logged_in_def login_def toLowerCase_examples example_defs service_defs)

subsection \<open>Tokens\<close>

lemma api_errors_distinct:
  "tokenExpired \<noteq> invalidToken" "errorCode tokenExpired \<noteq> errorCode invalidToken"
  by (simp_all add: tokenExpired_def invalidToken_def)


lemma verifyRefreshToken_cases:
  "verifyRefreshToken m now t =
     (if \<not> well_signed (JWT_REFRESH_SECRET m) t then Inl (Api invalidToken)
      else if not_yet_active now t
      then Inl (Api (unauthorized ''Refresh token verification failed''))
      else if past_expiry now t then Inl (Api tokenExpired)
      else if \<not> issuer_audience_ok (JWT_CONFIG m) t then Inl (Api invalidToken)
      else Inr (token_claims t))"
  by (cases t) (auto simp: verifyRefreshToken_def jwt_verify_def well_signed_def past_expiry_def
      issuer_audience_ok_def not_yet_active_def token_claims_def split: option.splits)

lemma generateRefreshToken_Inr:
  "generateRefreshToken m now p = Inr t \<Longrightarrow>
     JWT_REFRESH_SECRET m \<noteq> [] \<and>
     t = Jwt p (clock_of now) (clock_of now + REFRESH_TOKEN_EXPIRY (JWT_CONFIG m))
           (ISSUER (JWT_CONFIG m)) (AUDIENCE (JWT_CONFIG m)) (JWT_REFRESH_SECRET m) None"
  by (auto simp: generateRefreshToken_def jwt_sign_def split: if_splits)

lemma generateTokens_Inr:
  assumes "generateTokens m now u = Inr t"
  shows "JWT_SECRET m \<noteq> []" "JWT_REFRESH_SECRET m \<noteq> []"
    "tokens.refreshToken t
       = Jwt \<lparr>p_id = user.id u, p_email = user.email u, p_role = None, p_companyId = None,
               p_status = None\<rparr>
           (clock_of now) (clock_of now + REFRESH_TOKEN_EXPIRY (JWT_CONFIG m))
           (ISSUER (JWT_CONFIG m)) (AUDIENCE (JWT_CONFIG m)) (JWT_REFRESH_SECRET m) None"
  using assms
  by (auto simp: generateTokens_def generateAccessToken_def generateRefreshToken_def
      jwt_sign_def split: if_splits)

lemma generateTokens_succeeds:
  assumes "JWT_SECRET m \<noteq> []" "JWT_REFRESH_SECRET m \<noteq> []"
  shows "\<exists>t. generateTokens m now u = Inr t"
  using assms
  by (simp add: generateTokens_def generateAccessToken_def generateRefreshToken_def jwt_sign_def)

lemma issued_token_subject:
  "generateTokens m now u = Inr t \<Longrightarrow> token_subject (tokens.refreshToken t) = Some (user.id u)"
  by (auto simp: generateTokens_def generateAccessToken_def generateRefreshToken_def
      jwt_sign_def token_subject_def split: if_splits)

lemma verifyRefreshToken_Inr:
  assumes "verifyRefreshToken m now t = Inr d"
  shows "t \<noteq> NotJwt []" "token_subject t = Some (p_id (d_payload d))"
  using assms
  by (cases t; auto simp: verifyRefreshToken_def jwt_verify_def token_subject_def
      split: if_splits)+

lemma verifyRefreshToken_Inl:
  assumes "verifyRefreshToken m now t = Inl e"
  shows "\<exists>a. e = Api a \<and> statusCode a = UNAUTHORIZED"
  using assms unfolding verifyRefreshToken_cases
  by (auto simp: tokenExpired_def invalidToken_def unauthorized_def split: if_splits)

subsection \<open>The store\<close>

lemma find_SomeD: "find P xs = Some x \<Longrightarrow> x \<in> set xs \<and> P x"
  by (induction xs) (auto split: if_splits)

lemma find_user_after_map:
  assumes "\<And>u. user.id (f u) = user.id u"
  shows "find (\<lambda>u. user.id u = uid') (map (\<lambda>u. if user.id u = uid then f u else u) xs)
         = (if uid' = uid then map_option f (find (\<lambda>u. user.id u = uid) xs)
            else find (\<lambda>u. user.id u = uid') xs)"
  by (induction xs) (auto simp: assms)

lemma user_update_Inr:
  assumes "find_user_by_id s uid = Some u"
  shows "user_update uid f s
         = Inr (s\<lparr>users := map (\<lambda>u. if user.id u = uid then f u else u) (users s)\<rparr>)"
  using assms by (simp add: user_update_def)

lemma find_user_by_id_after_update:
  assumes "user_update uid f s = Inr s'" and "\<And>u. user.id (f u) = user.id u"
  shows "find_user_by_id s' uid'
         = (if uid' = uid then map_option f (find_user_by_id s uid) else find_user_by_id s uid')"
  using assms(1) find_user_after_map[of f uid' uid "users s", OF assms(2)]
  by (auto simp: user_update_def find_user_by_id_def split: option.splits)

lemma user_update_other_tables:
  assumes "user_update uid f s = Inr s'"
  shows "companies s' = companies s" "permissions s' = permissions s"
    "userPermissions s' = userPermissions s" "redis_client s' = redis_client s"
    "redis s' = redis s"
  using assms by (auto simp: user_update_def split: option.splits)

lemma find_user_by_email_id:
  "find_user_by_email s e = Some u \<Longrightarrow> find_user_by_id s (user.id u) \<noteq> None"
  by (auto simp: find_user_by_email_def find_user_by_id_def find_None_iff dest: find_SomeD)

lemma find_user_by_id_id: "find_user_by_id s uid = Some u \<Longrightarrow> user.id u = uid"
  by (auto simp: find_user_by_id_def dest: find_SomeD)

lemma find_company_after_update:
  "user_update uid f s = Inr s' \<Longrightarrow> find_company s' cid = find_company s cid"
  by (simp add: find_company_def user_update_other_tables)

lemma find_permission_SomeD:
  "find_permission s pid = Some p \<Longrightarrow> p \<in> set (permissions s) \<and> permission.id p = pid"
  by (auto simp: find_permission_def dest: find_SomeD)

lemma filter_unique:
  assumes "distinct (map f xs)" "x \<in> set xs"
  shows "filter (\<lambda>y. f y = f x) xs = [x]"
  using assms
proof (induction xs)
  case Nil then show ?case by simp
next
  case (Cons a xs)
  show ?case
  proof (cases "a = x")
    case True
    with Cons.prems have "\<forall>y\<in>set xs. f y \<noteq> f x" by (auto simp: image_iff)
    then have "filter (\<lambda>y. f y = f x) xs = []" by (simp add: filter_empty_conv)
    with True show ?thesis by simp
  next
    case False
    with Cons.prems have "x \<in> set xs" "f a \<noteq> f x" "distinct (map f xs)"
      by (auto simp: image_iff)
    with Cons.IH show ?thesis by simp
  qed
qed

lemma upsert_has_row:
  "\<exists>up \<in> set (userPermissions (upsert_userPermission now uid byId pid s)).
     userId up = uid \<and> permissionId up = pid \<and> granted up"
proof (cases "list_ex (\<lambda>up. userId up = uid \<and> permissionId up = pid) (userPermissions s)")
  case True
  then obtain up where up: "up \<in> set (userPermissions s)" "userId up = uid"
    "permissionId up = pid"
    by (auto simp: list_ex_iff)
  let ?up = "up\<lparr>granted := True, grantedAt := now, grantedBy := byId\<rparr>"
  from up have "?up \<in> set (userPermissions (upsert_userPermission now uid byId pid s))"
    using True by (force simp: upsert_userPermission_def image_iff)
  moreover from up have "userId ?up = uid \<and> permissionId ?up = pid \<and> granted ?up" by simp
  ultimately show ?thesis by blast
next
  case False
  then show ?thesis by (simp add: upsert_userPermission_def)
qed

lemma upsert_tables:
  "users (upsert_userPermission now uid byId pid s) = users s"
  "permissions (upsert_userPermission now uid byId pid s) = permissions s"
  "redis_client (upsert_userPermission now uid byId pid s) = redis_client s"
  "redis (upsert_userPermission now uid byId pid s) = redis s"
  by (simp_all add: upsert_userPermission_def)

subsection \<open>The cache\<close>

lemma deleteCache_getCache:
  "getCache (snd (deleteCache s del_ok key)) get_ok now key
     = (if del_ok then None else getCache s get_ok now key)"
  by (simp add: deleteCache_def getCache_def)

lemma deleteCache_tables:
  "users (snd (deleteCache s del_ok key)) = users s"
  "companies (snd (deleteCache s del_ok key)) = companies s"
  "permissions (snd (deleteCache s del_ok key)) = permissions s"
  "userPermissions (snd (deleteCache s del_ok key)) = userPermissions s"
  "redis_client (snd (deleteCache s del_ok key)) = redis_client s"
  by (simp_all add: deleteCache_def)

lemma find_user_by_id_deleteCache:
  "find_user_by_id (snd (deleteCache s del_ok key)) uid = find_user_by_id s uid"
  by (simp add: find_user_by_id_def deleteCache_tables)

lemma getCache_upsert:
  "getCache (upsert_userPermission now uid byId pid s) get_ok now' key = getCache s get_ok now' key"
  by (simp add: getCache_def upsert_tables)

subsection \<open>Permission checks\<close>

lemma in_concat_map: "x \<in> set (concat (map f rows)) \<longleftrightarrow> (\<exists>y \<in> set rows. x \<in> set (f y))"
  by auto

lemma joined_row:
  "(mo, a, r) \<in> set (case find_permission s pid of
                        None \<Rightarrow> []
                      | Some p \<Rightarrow> [(module p, action p, resource p)])
   \<longleftrightarrow> (\<exists>p. find_permission s pid = Some p \<and> perm_triple p = (mo, a, r))"
  by (cases "find_permission s pid") (auto simp: perm_triple_def)

lemma joined_permissions:
  "(mo, a, r) \<in> set (concat (map (\<lambda>up. case find_permission s (permissionId up) of
                                            None \<Rightarrow> []
                                          | Some p \<Rightarrow> [(module p, action p, resource p)]) rows))
   \<longleftrightarrow> (\<exists>up \<in> set rows. \<exists>p. find_permission s (permissionId up) = Some p
                              \<and> perm_triple p = (mo, a, r))"
  unfolding in_concat_map joined_row ..

lemma hasPermission_iff: "hasPermission ps mo a r \<longleftrightarrow> (mo, a, r) \<in> set ps"
  by (auto simp: hasPermission_def list_ex_iff)

text \<open>What a check answers when the read of the cache gives nothing.\<close>

lemma checkPermission_miss:
  assumes "find_user_by_id s uid = Some u" "user.role u \<noteq> SUPERADMIN"
    and "getCache s get_ok now (USER_PERMISSIONS uid) = None"
  shows "fst (checkPermission ttl now get_ok set_ok s uid mo a r)
         \<longleftrightarrow> (\<exists>up \<in> set (userPermissions s). \<exists>p.
                userId up = uid \<and> granted up \<and> find_permission s (permissionId up) = Some p
                \<and> perm_triple p = (mo, a, r))"
proof -
  let ?rows = "filter (\<lambda>up. userId up = uid \<and> granted up) (userPermissions s)"
  let ?perms = "concat (map (\<lambda>up. case find_permission s (permissionId up) of
                                    None \<Rightarrow> []
                                  | Some p \<Rightarrow> [(module p, action p, resource p)]) ?rows)"
  have "fst (checkPermission ttl now get_ok set_ok s uid mo a r) = hasPermission ?perms mo a r"
    unfolding checkPermission_def getUserPermissions_def Let_def using assms
    by (simp only: option.case if_False split_conv fst_conv)
  also have "\<dots> \<longleftrightarrow> (\<exists>up \<in> set ?rows. \<exists>p. find_permission s (permissionId up) = Some p
                              \<and> perm_triple p = (mo, a, r))"
    unfolding hasPermission_iff joined_permissions ..
  also have "\<dots> \<longleftrightarrow> (\<exists>up \<in> set (userPermissions s). \<exists>p.
                userId up = uid \<and> granted up \<and> find_permission s (permissionId up) = Some p
                \<and> perm_triple p = (mo, a, r))"
    by auto
  finally show ?thesis .
qed

text \<open>What a check answers when the read of the cache gives a list.\<close>

lemma checkPermission_hit:
  assumes "find_user_by_id s uid = Some u" "user.role u \<noteq> SUPERADMIN"
    and "getCache s get_ok now (USER_PERMISSIONS uid) = Some v"
  shows "checkPermission ttl now get_ok set_ok s uid mo a r = (hasPermission v mo a r, s)"
  using assms by (simp add: checkPermission_def getUserPermissions_def)

text \<open>The answers of a check after an assignment and after a revocation, by what it reads.\<close>

lemma check_after_assign:
  assumes u: "find_user_by_id s uid = Some u" and role: "user.role u \<noteq> SUPERADMIN"
    and g: "find_permission s gid = Some g"
    and s1_def: "s1 = snd (deleteCache (upsert_userPermission now uid byId gid s) del_ok
                            (USER_PERMISSIONS uid))"
    and miss: "getCache s1 get_ok now' (USER_PERMISSIONS uid) = None"
  shows "fst (checkPermission ttl now' get_ok set_ok s1 uid (module g) (action g) (resource g))"
proof -
  have u1: "find_user_by_id s1 uid = Some u"
    using u by (simp add: s1_def find_user_by_id_def deleteCache_tables upsert_tables)
  have fp: "find_permission s1 gid = Some g"
    using g by (simp add: s1_def find_permission_def deleteCache_tables upsert_tables)
  from upsert_has_row[of now uid byId gid s] obtain up where
    "up \<in> set (userPermissions s1)" "userId up = uid" "permissionId up = gid" "granted up"
    by (auto simp: s1_def deleteCache_tables)
  with fp show ?thesis
    unfolding checkPermission_miss[OF u1 role miss] by (auto simp: perm_triple_def)
qed

lemma check_after_revoke:
  assumes u: "find_user_by_id s uid = Some u" and role: "user.role u \<noteq> SUPERADMIN"
    and g: "find_permission s gid = Some g" and uniq: "store_unique s"
    and s2_def: "s2 = snd (deleteCache
                       (s\<lparr>userPermissions :=
                            filter (\<lambda>up. \<not> (userId up = uid \<and> permissionId up \<in> set [gid]))
                              (userPermissions s)\<rparr>)
                       del_ok (USER_PERMISSIONS uid))"
    and miss: "getCache s2 get_ok now' (USER_PERMISSIONS uid) = None"
  shows "\<not> fst (checkPermission ttl now' get_ok set_ok s2 uid (module g) (action g)
                 (resource g))"
proof
  from find_permission_SomeD[OF g] have gin: "g \<in> set (permissions s)"
    and gid: "permission.id g = gid"
    by auto
  have u2: "find_user_by_id s2 uid = Some u"
    using u by (simp add: s2_def find_user_by_id_def deleteCache_tables)
  have fp: "\<And>pid. find_permission s2 pid = find_permission s pid"
    by (simp add: s2_def find_permission_def deleteCache_tables)
  assume "fst (checkPermission ttl now' get_ok set_ok s2 uid (module g) (action g) (resource g))"
  then obtain up p where
    upin: "up \<in> set (userPermissions s2)" and upu: "userId up = uid"
    and p: "find_permission s2 (permissionId up) = Some p"
    and tr: "perm_triple p = (module g, action g, resource g)"
    unfolding checkPermission_miss[OF u2 role miss] by blast
  from upin upu have ne: "permissionId up \<noteq> gid" by (auto simp: s2_def deleteCache_tables)
  from p[unfolded fp] have p0: "find_permission s (permissionId up) = Some p" .
  from find_permission_SomeD[OF p0] have pin: "p \<in> set (permissions s)"
    and pid: "permission.id p = permissionId up" by auto
  from tr have "perm_triple p = perm_triple g" by (simp add: perm_triple_def)
  with uniq pin gin have "p = g"
    by (auto simp: store_unique_def distinct_map inj_on_def)
  with pid gid ne show False by simp
qed

subsection \<open>The session operations\<close>

lemma status_cases: "st \<noteq> INACTIVE \<Longrightarrow> st \<noteq> SUSPENDED \<Longrightarrow> st = ACTIVE"
  by (cases st) simp_all

lemma login_Inr:
  assumes "login m now s mail pw = (Inr r, s')"
  shows "\<exists>u c t.
    find_user_by_email s (toLowerCase mail) = Some u
    \<and> comparePassword pw (password u)
    \<and> user.status u = ACTIVE
    \<and> find_company s (companyId u) = Some c \<and> isActive c
    \<and> generateTokens m now u = Inr t
    \<and> user_update (user.id u)
         (\<lambda>u. u\<lparr>lastLoginAt := Some now, user.refreshToken := Some (tokens.refreshToken t)\<rparr>) s
        = Inr s'
    \<and> r = \<lparr>res_user =
            omit [''password'', ''refreshToken'']
              (user_object u @
               [(''company'', JObj [(''id'', JStr (company.id c)),
                                   (''name'', JStr (company.name c)),
                                   (''isActive'', JBool (isActive c))])]),
          res_tokens = t\<rparr>"
  using assms
  by (auto simp: login_def status_cases split: option.splits if_splits sum.splits)

lemma register_Inr:
  assumes "register m now slt newId defaults s d = (Inr r, s')"
  shows "map fst (res_user r)
         = [''id'', ''email'', ''name'', ''phone'', ''role'', ''status'', ''companyId'',
            ''createdAt'', ''company'']"
  using assms
  by (auto simp: register_def Let_def split: option.splits if_splits sum.splits)

lemma not_has_property_omit: "k \<in> set ks \<Longrightarrow> \<not> has_property (omit ks obj) k"
  by (auto simp: has_property_def omit_def list_ex_iff)

lemma has_property_iff: "has_property obj k \<longleftrightarrow> k \<in> set (map fst obj)"
  by (force simp: has_property_def list_ex_iff)

lemma refreshAccessToken_Inr:
  assumes "refreshAccessToken m now s T = (Inr t, s')"
  shows "\<exists>d u c.
      verifyRefreshToken m now T = Inr d
    \<and> find_user_by_id s (p_id (d_payload d)) = Some u
    \<and> user.refreshToken u = Some T
    \<and> user.status u = ACTIVE
    \<and> find_company s (companyId u) = Some c \<and> isActive c
    \<and> generateTokens m now u = Inr t
    \<and> user_update (user.id u) (\<lambda>u. u\<lparr>user.refreshToken := Some (tokens.refreshToken t)\<rparr>) s
        = Inr s'"
  using assms
  by (auto simp: refreshAccessToken_def split: option.splits if_splits sum.splits)

text \<open>A refresh with a token of an identity whose stored token is another one.\<close>

lemma refresh_mismatch_unauthorized:
  assumes sub: "token_subject T = Some uid"
    and u: "find_user_by_id s uid = Some u"
    and ne: "user.refreshToken u \<noteq> Some T"
  shows "\<exists>e. refreshAccessToken m now s T = (Inl (Api e), s) \<and> statusCode e = UNAUTHORIZED
           \<and> (\<not> isl (verifyRefreshToken m now T) \<longrightarrow> e = unauthorized ''Invalid refresh token'')"
proof (cases "verifyRefreshToken m now T")
  case (Inl e)
  from sub have "T \<noteq> NotJwt []" by (auto simp: token_subject_def)
  with Inl verifyRefreshToken_Inl[OF Inl] show ?thesis
    by (auto simp: refreshAccessToken_def)
next
  case (Inr d)
  from verifyRefreshToken_Inr[OF Inr] sub have "T \<noteq> NotJwt []" "p_id (d_payload d) = uid"
    by auto
  with Inr u ne show ?thesis
    by (auto simp: refreshAccessToken_def unauthorized_def)
qed

lemma clear_token_idem:
  "map (\<lambda>u. if user.id u = uid then u\<lparr>user.refreshToken := None\<rparr> else u)
     (map (\<lambda>u. if user.id u = uid then u\<lparr>user.refreshToken := None\<rparr> else u) xs)
   = map (\<lambda>u. if user.id u = uid then u\<lparr>user.refreshToken := None\<rparr> else u) xs"
  by (induction xs) auto

lemma logout_effect:
  assumes u: "find_user_by_id s uid = Some u"
  shows "\<exists>s'. logout del_ok s uid = (Inr (), s')
     \<and> find_user_by_id s' uid = Some (u\<lparr>user.refreshToken := None\<rparr>)
     \<and> users s' = map (\<lambda>u. if user.id u = uid then u\<lparr>user.refreshToken := None\<rparr> else u)
                     (users s)
     \<and> companies s' = companies s \<and> permissions s' = permissions s
     \<and> userPermissions s' = userPermissions s \<and> redis_client s' = redis_client s
     \<and> redis s' = (if redis_client s \<and> del_ok then (redis s)(USER_PERMISSIONS uid := None)
                   else redis s)"
proof -
  let ?f = "\<lambda>u. u\<lparr>user.refreshToken := None\<rparr>"
  let ?s1 = "s\<lparr>users := map (\<lambda>u. if user.id u = uid then ?f u else u) (users s)\<rparr>"
  let ?s' = "snd (deleteCache ?s1 del_ok (USER_PERMISSIONS uid))"
  have upd: "user_update uid ?f s = Inr ?s1" using u by (rule user_update_Inr)
  have out: "logout del_ok s uid = (Inr (), ?s')"
    by (simp add: logout_def upd USER_PERMISSIONS_def)
  have u1: "find_user_by_id ?s1 uid = Some (?f u)"
    using find_user_by_id_after_update[OF upd, of uid] u by simp
  then have u': "find_user_by_id ?s' uid = Some (?f u)"
    by (simp add: find_user_by_id_deleteCache)
  have rest: "users ?s' = map (\<lambda>u. if user.id u = uid then ?f u else u) (users s)"
    "companies ?s' = companies s" "permissions ?s' = permissions s"
    "userPermissions ?s' = userPermissions s" "redis_client ?s' = redis_client s"
    "redis ?s' = (if redis_client s \<and> del_ok then (redis s)(USER_PERMISSIONS uid := None)
                  else redis s)"
    by (simp_all add: deleteCache_def)
  from out u' rest show ?thesis by blast
qed

lemma state_eqI:
  fixes s t :: state
  assumes "users s = users t" "companies s = companies t" "permissions s = permissions t"
    "userPermissions s = userPermissions t" "redis_client s = redis_client t"
    "redis s = redis t"
  shows "s = t"
  using assms by (cases s, cases t) simp

subsection \<open>Stored tokens belong to their identity\<close>

lemma tokens_belong_update:
  assumes "tokens_belong s" "user_update uid f s = Inr s'"
    and "\<And>u. user.id u = uid \<Longrightarrow> token_belongs (f u)"
  shows "tokens_belong s'"
  using assms
  by (auto simp: tokens_belong_def user_update_def list_all_iff split: option.splits)

lemma tokens_belong_login:
  assumes "tokens_belong s" "login m now s mail pw = (r, s')"
  shows "tokens_belong s'"
proof (cases r)
  case (Inl e)
  with assms have "s' = s"
    by (auto simp: login_def split: option.splits if_splits sum.splits)
  with assms show ?thesis by simp
next
  case (Inr res)
  with assms login_Inr[of m now s mail pw res s'] obtain u t where
    g: "generateTokens m now u = Inr t"
    and upd: "user_update (user.id u)
         (\<lambda>u. u\<lparr>lastLoginAt := Some now, user.refreshToken := Some (tokens.refreshToken t)\<rparr>) s
        = Inr s'"
    by auto
  show ?thesis
    using assms(1) upd
    by (rule tokens_belong_update) (simp add: token_belongs_def issued_token_subject[OF g])
qed

lemma tokens_belong_refresh:
  assumes "tokens_belong s" "refreshAccessToken m now s T = (r, s')"
  shows "tokens_belong s'"
proof (cases r)
  case (Inl e)
  with assms have "s' = s"
    by (auto simp: refreshAccessToken_def split: option.splits if_splits sum.splits)
  with assms show ?thesis by simp
next
  case (Inr t)
  with assms refreshAccessToken_Inr[of m now s T t s'] obtain u where
    g: "generateTokens m now u = Inr t"
    and upd: "user_update (user.id u)
         (\<lambda>u. u\<lparr>user.refreshToken := Some (tokens.refreshToken t)\<rparr>) s = Inr s'"
    by auto
  show ?thesis
    using assms(1) upd
    by (rule tokens_belong_update) (simp add: token_belongs_def issued_token_subject[OF g])
qed

lemma tokens_belong_logout:
  assumes "tokens_belong s" "logout del_ok s uid = (r, s')"
  shows "tokens_belong s'"
  using assms
  by (auto simp: logout_def tokens_belong_def deleteCache_tables user_update_def list_all_iff
      token_belongs_def split: option.splits sum.splits)

lemma tokens_belong_changePassword:
  assumes "tokens_belong s" "changePassword now slt s uid cur new = (r, s')"
  shows "tokens_belong s'"
  using assms
  by (auto simp: changePassword_def tokens_belong_def user_update_def list_all_iff
      token_belongs_def split: option.splits sum.splits if_splits)

lemma tokens_belong_register:
  assumes "tokens_belong s" "register m now slt newId defaults s d = (r, s')"
  shows "tokens_belong s'"
  using assms
  by (auto simp: register_def tokens_belong_def user_update_def list_all_iff Let_def
      token_belongs_def find_user_by_id_def issued_token_subject
      split: option.splits sum.splits if_splits)

section \<open>Claims\<close>

text \<open>
  C1, as the claim states it, fails. The token library stamps whole seconds and signs
  deterministically, and the refresh payload is the identity's id and email only, so a
  refresh in the clock second in which the presented token was issued produces the very
  same token. Alice logs in at 100.2 s and is issued a refresh token; a refresh at 100.5 s
  returns that same token as the new one; presenting it again at 100.9 s succeeds.
\<close>

theorem refresh_rotation_counterexample:
  "fst (login shared_secret_module 100200 example_state ''alice@example.com'' ''Secret@123'')
     = Inr \<lparr>res_user =
              [(''id'', JStr ''u1''), (''email'', JStr ''alice@example.com''),
               (''name'', JStr ''Alice''), (''phone'', JNull), (''role'', JRole VIEWER),
               (''status'', JStatus ACTIVE), (''companyId'', JStr ''c1''),
               (''lastLoginAt'', JNull), (''passwordChangedAt'', JNull),
               (''createdAt'', JNum 0), (''avatar'', JNull),
               (''company'', JObj [(''id'', JStr ''c1''), (''name'', JStr ''Acme''),
                                   (''isActive'', JBool True)])],
            res_tokens = \<lparr>accessToken = alice_access_100, refreshToken = alice_refresh_100\<rparr>\<rparr>
   \<and> fst (refreshAccessToken shared_secret_module 100500
          (snd (login shared_secret_module 100200 example_state ''alice@example.com''
                  ''Secret@123''))
          alice_refresh_100)
     = Inr \<lparr>accessToken = alice_access_100, refreshToken = alice_refresh_100\<rparr>
   \<and> fst (refreshAccessToken shared_secret_module 100900
          (snd (refreshAccessToken shared_secret_module 100500
                  (snd (login shared_secret_module 100200 example_state ''alice@example.com''
                          ''Secret@123''))
                  alice_refresh_100))
          alice_refresh_100)
     = Inr \<lparr>accessToken = alice_access_100, refreshToken = alice_refresh_100\<rparr>"
  by (simp add: login_def refreshAccessToken_def toLowerCase_examples example_defs service_defs
      omit_def user_object_def js_opt_def)

text \<open>
  C1, amended. If a refresh presented with T1 succeeds and issues T2, then the stored
  refresh token of T1's subject is T2; every later refresh presented with a token of that
  subject other than T2 fails with status Unauthorized and changes nothing (the error is
  the unauthorized error of a mismatch as long as the presented token still verifies, the
  error of the verifier otherwise); T1 is such a token whenever the refresh
  happens in another clock second than the one T1 was issued in; a later refresh
  presented with T2 before T2 expires succeeds; and when T1 was issued to the identity in
  the clock second of the refresh, T2 is T1.
\<close>

theorem refresh_rotation:
  assumes ok: "refreshAccessToken m now s T1 = (Inr t, s')"
  shows "\<exists>uid. token_subject T1 = Some uid
     \<and> map_option user.refreshToken (find_user_by_id s' uid) = Some (Some (tokens.refreshToken t))
     \<and> (\<forall>T now'. T \<noteq> tokens.refreshToken t \<and> token_subject T = Some uid \<longrightarrow>
           (\<exists>e. refreshAccessToken m now' s' T = (Inl (Api e), s') \<and> statusCode e = UNAUTHORIZED
                \<and> (\<not> isl (verifyRefreshToken m now' T) \<longrightarrow>
                     e = unauthorized ''Invalid refresh token'')))
     \<and> (iat T1 \<noteq> clock_of now \<longrightarrow> T1 \<noteq> tokens.refreshToken t)
     \<and> (\<forall>now'. clock_of now' < exp (tokens.refreshToken t) \<longrightarrow>
           (\<exists>t' s''. refreshAccessToken m now' s' (tokens.refreshToken t) = (Inr t', s'')))
     \<and> (\<forall>u now0 t0. find_user_by_id s uid = Some u \<and> generateTokens m now0 u = Inr t0
            \<and> tokens.refreshToken t0 = T1 \<and> clock_of now0 = clock_of now \<longrightarrow>
           tokens.refreshToken t = T1)"
proof -
  from refreshAccessToken_Inr[OF ok] obtain d u and c :: company where
    v: "verifyRefreshToken m now T1 = Inr d"
    and u: "find_user_by_id s (p_id (d_payload d)) = Some u"
    and st: "user.status u = ACTIVE"
    and c: "find_company s (companyId u) = Some c" "isActive c"
    and g: "generateTokens m now u = Inr t"
    and upd: "user_update (user.id u)
                (\<lambda>u. u\<lparr>user.refreshToken := Some (tokens.refreshToken t)\<rparr>) s = Inr s'"
    by blast
  let ?uid = "p_id (d_payload d)"
  let ?T2 = "tokens.refreshToken t"
  have id: "user.id u = ?uid" using u by (rule find_user_by_id_id)
  have sub: "token_subject T1 = Some ?uid" using verifyRefreshToken_Inr[OF v] by simp
  have u': "find_user_by_id s' ?uid = Some (u\<lparr>user.refreshToken := Some ?T2\<rparr>)"
    using find_user_by_id_after_update[OF upd, of ?uid] u id by simp
  have stored: "map_option user.refreshToken (find_user_by_id s' ?uid) = Some (Some ?T2)"
    using u' by simp
  have replay: "\<forall>T now'. T \<noteq> ?T2 \<and> token_subject T = Some ?uid \<longrightarrow>
      (\<exists>e. refreshAccessToken m now' s' T = (Inl (Api e), s') \<and> statusCode e = UNAUTHORIZED
                \<and> (\<not> isl (verifyRefreshToken m now' T) \<longrightarrow>
                     e = unauthorized ''Invalid refresh token''))"
  proof (intro allI impI)
    fix T now' assume "T \<noteq> ?T2 \<and> token_subject T = Some ?uid"
    then show "\<exists>e. refreshAccessToken m now' s' T = (Inl (Api e), s')
                  \<and> statusCode e = UNAUTHORIZED
                  \<and> (\<not> isl (verifyRefreshToken m now' T) \<longrightarrow>
                       e = unauthorized ''Invalid refresh token'')"
      using refresh_mismatch_unauthorized[of T ?uid s' "u\<lparr>user.refreshToken := Some ?T2\<rparr>" m now']
        u' by auto
  qed
  have T2: "?T2 = Jwt \<lparr>p_id = user.id u, p_email = user.email u, p_role = None,
                       p_companyId = None, p_status = None\<rparr>
           (clock_of now) (clock_of now + REFRESH_TOKEN_EXPIRY (JWT_CONFIG m))
           (ISSUER (JWT_CONFIG m)) (AUDIENCE (JWT_CONFIG m)) (JWT_REFRESH_SECRET m) None"
    and secrets: "JWT_SECRET m \<noteq> []" "JWT_REFRESH_SECRET m \<noteq> []"
    using generateTokens_Inr[OF g] by auto
  have differ: "iat T1 \<noteq> clock_of now \<longrightarrow> T1 \<noteq> ?T2"
    using T2 by auto
  have again: "\<forall>now'. clock_of now' < exp ?T2 \<longrightarrow>
      (\<exists>t' s''. refreshAccessToken m now' s' ?T2 = (Inr t', s''))"
  proof (intro allI impI)
    fix now' assume live: "clock_of now' < exp ?T2"
    have v2: "verifyRefreshToken m now' ?T2 = Inr (token_claims ?T2)"
      using live secrets unfolding verifyRefreshToken_cases
      by (simp add: T2 well_signed_def past_expiry_def issuer_audience_ok_def
          not_yet_active_def)
    have ne: "?T2 \<noteq> NotJwt []" using T2 by simp
    have pid: "p_id (d_payload (token_claims ?T2)) = ?uid"
      using T2 id by (simp add: token_claims_def)
    from generateTokens_succeeds[OF secrets, of now' "u\<lparr>user.refreshToken := Some ?T2\<rparr>"]
    obtain t' where g': "generateTokens m now' (u\<lparr>user.refreshToken := Some ?T2\<rparr>) = Inr t'"
      by blast
    have upd': "user_update ?uid (\<lambda>u. u\<lparr>user.refreshToken := Some (tokens.refreshToken t')\<rparr>) s'
        = Inr (s'\<lparr>users := map (\<lambda>u. if user.id u = ?uid
                                     then u\<lparr>user.refreshToken := Some (tokens.refreshToken t')\<rparr>
                                     else u) (users s')\<rparr>)"
      using u' by (rule user_update_Inr)
    have c': "find_company s' (companyId u) = Some c"
      using find_company_after_update[OF upd] c by simp
    show "\<exists>t' s''. refreshAccessToken m now' s' ?T2 = (Inr t', s'')"
      using v2 ne pid u' st c' c(2) g' upd' id
      by (simp add: refreshAccessToken_def)
  qed
  have same: "\<forall>u0 now0 t0. find_user_by_id s ?uid = Some u0 \<and> generateTokens m now0 u0 = Inr t0
            \<and> tokens.refreshToken t0 = T1 \<and> clock_of now0 = clock_of now \<longrightarrow>
           tokens.refreshToken t = T1"
  proof (intro allI impI)
    fix u0 now0 t0
    assume a: "find_user_by_id s ?uid = Some u0 \<and> generateTokens m now0 u0 = Inr t0
            \<and> tokens.refreshToken t0 = T1 \<and> clock_of now0 = clock_of now"
    with u have "u0 = u" by simp
    with a generateTokens_Inr(3)[of m now0 u t0] T2 show "tokens.refreshToken t = T1"
      by simp
  qed
  show ?thesis
    by (rule exI[of _ ?uid]) (intro conjI sub stored replay differ again same)
qed

theorem refresh_rotation_witness:
  "fst (refreshAccessToken shared_secret_module 101500 alice_logged_in alice_refresh_100)
     = Inr \<lparr>accessToken = alice_access_101, refreshToken = alice_refresh_101\<rparr>
   \<and> refreshAccessToken shared_secret_module 102000
         (snd (refreshAccessToken shared_secret_module 101500 alice_logged_in
                 alice_refresh_100))
         alice_refresh_100
       = (Inl (Api (unauthorized ''Invalid refresh token'')),
          snd (refreshAccessToken shared_secret_module 101500 alice_logged_in
                 alice_refresh_100))
   \<and> statusCode (unauthorized ''Invalid refresh token'') = UNAUTHORIZED
   \<and> (\<exists>t' s''. refreshAccessToken shared_secret_module 102000
             (snd (refreshAccessToken shared_secret_module 101500 alice_logged_in
                     alice_refresh_100))
             alice_refresh_101 = (Inr t', s''))"
proof -
  let ?r = "refreshAccessToken shared_secret_module 101500 alice_logged_in alice_refresh_100"
  let ?t = "\<lparr>accessToken = alice_access_101, refreshToken = alice_refresh_101\<rparr>"
  have f: "fst ?r = Inr ?t"
    by (simp add: alice_logged_in_eq refreshAccessToken_def example_defs service_defs)
  then have ok: "?r = (Inr ?t, snd ?r)" by (simp add: prod_eq_iff)
  have sub: "token_subject alice_refresh_100 = Some ''u1''"
    by (simp add: token_subject_def example_defs)
  have ne: "alice_refresh_100 \<noteq> alice_refresh_101"
    by (simp add: example_defs)
  have live: "clock_of 102000 < exp alice_refresh_101"
    by (simp add: clock_of_def example_defs)
  have v: "\<not> isl (verifyRefreshToken shared_secret_module 102000 alice_refresh_100)"
    by (simp add: example_defs service_defs)
  from refresh_rotation[OF ok] sub ne live f v show ?thesis
    by (auto simp: unauthorized_def)
qed

text \<open>
  C2, as the claim states it, fails. \<^verbatim>\<open>deleteCache\<close> catches the error of a Redis command
  that fails and returns \<^verbatim>\<open>false\<close>, and the mutations do not look at what it returns.
  Alice holds the grant and her cached permissions say so; the revocation, whose delete
  command fails, returns normally with one row revoked and the entry still in the cache;
  the check that follows reads the cache and answers true. Likewise an assignment whose
  delete fails is followed by a check that answers false from the cached empty list.
\<close>

theorem permission_cache_counterexample:
  "fst (revokePermissionsFromUser False granted_state ''u1'' [''p1''] ''u0'')
     = Inr \<lparr>rr_userId = ''u1'', revokedCount = 1\<rparr>
   \<and> userPermissions (snd (revokePermissionsFromUser False granted_state ''u1'' [''p1''] ''u0''))
     = []
   \<and> fst (checkPermission 1800 5000 True True
            (snd (revokePermissionsFromUser False granted_state ''u1'' [''p1''] ''u0''))
            ''u1'' ''sales'' ''read'' ''invoices'')
   \<and> fst (assignPermissionsToUser 4000 False ungranted_state ''u1'' [''p1''] ''u0'')
     = Inr \<lparr>ar_userId = ''u1'', assignedCount = 1,
            ar_permissions = [(''p1'', ''sales'', ''read'', ''invoices'')]\<rparr>
   \<and> \<not> fst (checkPermission 1800 5000 True True
              (snd (assignPermissionsToUser 4000 False ungranted_state ''u1'' [''p1''] ''u0''))
              ''u1'' ''sales'' ''read'' ''invoices'')"
  by (simp add: revokePermissionsFromUser_def assignPermissionsToUser_def
      upsert_userPermission_def deleteCache_def checkPermission_def getUserPermissions_def
      getCache_def hasPermission_def USER_PERMISSIONS_def example_defs service_defs)

text \<open>
  C2, amended. For an identity that is not a superadmin and a permission of the catalogue,
  whose identifiers and (module, action, resource) triples are unique: assigning the
  permission returns normally, and a check of the permission's triple in the resulting
  state is true provided the delete of the cache entry succeeded or the check's read of
  the cache finds nothing; revoking it returns normally, and a check in the resulting state
  is false under the same proviso. When the delete succeeds no read of the cache finds an
  entry of the identity afterwards. When the delete fails the mutation still returns
  normally, and a following check whose read of the cache finds a list answers from that
  list, the one cached before the mutation.
\<close>

theorem permission_cache_after_mutation:
  assumes u: "find_user_by_id s uid = Some u" and role: "user.role u \<noteq> SUPERADMIN"
    and g: "find_permission s gid = Some g" and uniq: "store_unique s"
  shows "(\<exists>r s1. assignPermissionsToUser now del_ok s uid [gid] byId = (Inr r, s1)
            \<and> (del_ok \<longrightarrow> getCache s1 get_ok now' (USER_PERMISSIONS uid) = None)
            \<and> (del_ok \<or> getCache s get_ok now' (USER_PERMISSIONS uid) = None \<longrightarrow>
                 fst (checkPermission ttl now' get_ok set_ok s1 uid
                        (module g) (action g) (resource g)))
            \<and> (\<forall>v. \<not> del_ok \<and> getCache s get_ok now' (USER_PERMISSIONS uid) = Some v \<longrightarrow>
                 fst (checkPermission ttl now' get_ok set_ok s1 uid
                        (module g) (action g) (resource g))
                   = hasPermission v (module g) (action g) (resource g)))
       \<and> (\<exists>r s2. revokePermissionsFromUser del_ok s uid [gid] byId = (Inr r, s2)
            \<and> (del_ok \<longrightarrow> getCache s2 get_ok now' (USER_PERMISSIONS uid) = None)
            \<and> (del_ok \<or> getCache s get_ok now' (USER_PERMISSIONS uid) = None \<longrightarrow>
                 \<not> fst (checkPermission ttl now' get_ok set_ok s2 uid
                          (module g) (action g) (resource g)))
            \<and> (\<forall>v. \<not> del_ok \<and> getCache s get_ok now' (USER_PERMISSIONS uid) = Some v \<longrightarrow>
                 fst (checkPermission ttl now' get_ok set_ok s2 uid
                        (module g) (action g) (resource g))
                   = hasPermission v (module g) (action g) (resource g)))"
proof (rule conjI)
  from find_permission_SomeD[OF g] have gin: "g \<in> set (permissions s)"
    and gid: "permission.id g = gid"
    by auto
  let ?s0 = "upsert_userPermission now uid byId gid s"
  let ?s1 = "snd (deleteCache ?s0 del_ok (USER_PERMISSIONS uid))"
  let ?key = "USER_PERMISSIONS uid"
  have one: "filter (\<lambda>p. permission.id p \<in> set [gid]) (permissions s) = [g]"
    using filter_unique[of permission.id "permissions s" g] uniq gin gid
    by (simp add: store_unique_def)
  have out: "\<exists>r. assignPermissionsToUser now del_ok s uid [gid] byId = (Inr r, ?s1)"
    using u role one by (simp add: assignPermissionsToUser_def USER_PERMISSIONS_def)
  have u1: "find_user_by_id ?s1 uid = Some u"
    using u by (simp add: find_user_by_id_def deleteCache_tables upsert_tables)
  have cache: "getCache ?s1 get_ok now' ?key
               = (if del_ok then None else getCache s get_ok now' ?key)"
    by (simp add: deleteCache_getCache getCache_upsert)
  have gone: "del_ok \<longrightarrow> getCache ?s1 get_ok now' ?key = None"
    by (simp add: deleteCache_getCache)
  have fresh: "del_ok \<or> getCache s get_ok now' ?key = None \<longrightarrow>
      fst (checkPermission ttl now' get_ok set_ok ?s1 uid (module g) (action g) (resource g))"
  proof
    assume "del_ok \<or> getCache s get_ok now' ?key = None"
    with cache have miss: "getCache ?s1 get_ok now' ?key = None" by auto
    show "fst (checkPermission ttl now' get_ok set_ok ?s1 uid (module g) (action g)
                 (resource g))"
      using u role g refl miss by (rule check_after_assign)
  qed
  have stale: "\<forall>v. \<not> del_ok \<and> getCache s get_ok now' ?key = Some v \<longrightarrow>
      fst (checkPermission ttl now' get_ok set_ok ?s1 uid (module g) (action g) (resource g))
        = hasPermission v (module g) (action g) (resource g)"
  proof (intro allI impI)
    fix v assume "\<not> del_ok \<and> getCache s get_ok now' ?key = Some v"
    with cache have "getCache ?s1 get_ok now' ?key = Some v" by simp
    from checkPermission_hit[OF u1 role this]
    show "fst (checkPermission ttl now' get_ok set_ok ?s1 uid (module g) (action g)
                 (resource g))
        = hasPermission v (module g) (action g) (resource g)"
      by simp
  qed
  from out obtain r where r: "assignPermissionsToUser now del_ok s uid [gid] byId = (Inr r, ?s1)"
    by blast
  show "\<exists>r s1. assignPermissionsToUser now del_ok s uid [gid] byId = (Inr r, s1)
            \<and> (del_ok \<longrightarrow> getCache s1 get_ok now' (USER_PERMISSIONS uid) = None)
            \<and> (del_ok \<or> getCache s get_ok now' (USER_PERMISSIONS uid) = None \<longrightarrow>
                 fst (checkPermission ttl now' get_ok set_ok s1 uid
                        (module g) (action g) (resource g)))
            \<and> (\<forall>v. \<not> del_ok \<and> getCache s get_ok now' (USER_PERMISSIONS uid) = Some v \<longrightarrow>
                 fst (checkPermission ttl now' get_ok set_ok s1 uid
                        (module g) (action g) (resource g))
                   = hasPermission v (module g) (action g) (resource g))"
    by (rule exI[of _ r], rule exI[of _ ?s1]) (intro conjI r gone fresh stale)
next
  let ?s0 = "s\<lparr>userPermissions :=
                filter (\<lambda>up. \<not> (userId up = uid \<and> permissionId up \<in> set [gid]))
                  (userPermissions s)\<rparr>"
  let ?s2 = "snd (deleteCache ?s0 del_ok (USER_PERMISSIONS uid))"
  let ?key = "USER_PERMISSIONS uid"
  have out: "\<exists>r. revokePermissionsFromUser del_ok s uid [gid] byId = (Inr r, ?s2)"
    using u by (simp add: revokePermissionsFromUser_def USER_PERMISSIONS_def Let_def)
  have u2: "find_user_by_id ?s2 uid = Some u"
    using u by (simp add: find_user_by_id_def deleteCache_tables)
  have "getCache ?s0 get_ok now' ?key = getCache s get_ok now' ?key"
    by (simp add: getCache_def)
  then have cache: "getCache ?s2 get_ok now' ?key
               = (if del_ok then None else getCache s get_ok now' ?key)"
    by (simp only: deleteCache_getCache)
  have gone: "del_ok \<longrightarrow> getCache ?s2 get_ok now' ?key = None"
    by (simp add: deleteCache_getCache)
  have fresh: "del_ok \<or> getCache s get_ok now' ?key = None \<longrightarrow>
      \<not> fst (checkPermission ttl now' get_ok set_ok ?s2 uid (module g) (action g) (resource g))"
  proof
    assume "del_ok \<or> getCache s get_ok now' ?key = None"
    with cache have miss: "getCache ?s2 get_ok now' ?key = None" by auto
    show "\<not> fst (checkPermission ttl now' get_ok set_ok ?s2 uid (module g) (action g)
                   (resource g))"
      using u role g uniq refl miss by (rule check_after_revoke)
  qed
  have stale: "\<forall>v. \<not> del_ok \<and> getCache s get_ok now' ?key = Some v \<longrightarrow>
      fst (checkPermission ttl now' get_ok set_ok ?s2 uid (module g) (action g) (resource g))
        = hasPermission v (module g) (action g) (resource g)"
  proof (intro allI impI)
    fix v assume "\<not> del_ok \<and> getCache s get_ok now' ?key = Some v"
    with cache have "getCache ?s2 get_ok now' ?key = Some v" by simp
    from checkPermission_hit[OF u2 role this]
    show "fst (checkPermission ttl now' get_ok set_ok ?s2 uid (module g) (action g)
                 (resource g))
        = hasPermission v (module g) (action g) (resource g)"
      by simp
  qed
  from out obtain r where
    r: "revokePermissionsFromUser del_ok s uid [gid] byId = (Inr r, ?s2)"
    by blast
  show "\<exists>r s2. revokePermissionsFromUser del_ok s uid [gid] byId = (Inr r, s2)
            \<and> (del_ok \<longrightarrow> getCache s2 get_ok now' (USER_PERMISSIONS uid) = None)
            \<and> (del_ok \<or> getCache s get_ok now' (USER_PERMISSIONS uid) = None \<longrightarrow>
                 \<not> fst (checkPermission ttl now' get_ok set_ok s2 uid
                          (module g) (action g) (resource g)))
            \<and> (\<forall>v. \<not> del_ok \<and> getCache s get_ok now' (USER_PERMISSIONS uid) = Some v \<longrightarrow>
                 fst (checkPermission ttl now' get_ok set_ok s2 uid
                        (module g) (action g) (resource g))
                   = hasPermission v (module g) (action g) (resource g))"
    by (rule exI[of _ r], rule exI[of _ ?s2]) (intro conjI r gone fresh stale)
qed

theorem permission_cache_after_mutation_witness:
  "fst (checkPermission 1800 5000 True True granted_state ''u1'' ''sales'' ''read'' ''invoices'')
   \<and> \<not> fst (checkPermission 1800 5000 True True
              (snd (revokePermissionsFromUser True granted_state ''u1'' [''p1''] ''u0''))
              ''u1'' ''sales'' ''read'' ''invoices'')
   \<and> \<not> fst (checkPermission 1800 5000 True True ungranted_state ''u1'' ''sales'' ''read''
              ''invoices'')
   \<and> fst (checkPermission 1800 5000 True True
            (snd (assignPermissionsToUser 4000 True ungranted_state ''u1'' [''p1''] ''u0''))
            ''u1'' ''sales'' ''read'' ''invoices'')
   \<and> \<not> fst (checkPermission 1800 5000 False True
              (snd (revokePermissionsFromUser False granted_state ''u1'' [''p1''] ''u0''))
              ''u1'' ''sales'' ''read'' ''invoices'')
   \<and> fst (checkPermission 1800 5000 True True
            (snd (revokePermissionsFromUser False granted_state ''u1'' [''p1''] ''u0''))
            ''u1'' ''sales'' ''read'' ''invoices'')"
proof -
  have stale1: "fst (checkPermission 1800 5000 True True granted_state ''u1'' ''sales''
                       ''read'' ''invoices'')"
    by (simp add: checkPermission_def getUserPermissions_def getCache_def hasPermission_def
        USER_PERMISSIONS_def example_defs service_defs)
  have stale2:
    "\<not> fst (checkPermission 1800 5000 True True ungranted_state ''u1'' ''sales'' ''read''
              ''invoices'')"
    by (simp add: checkPermission_def getUserPermissions_def getCache_def hasPermission_def
        USER_PERMISSIONS_def example_defs service_defs)
  have u1: "find_user_by_id granted_state ''u1'' = Some alice"
    and u2: "find_user_by_id ungranted_state ''u1'' = Some alice"
    and role: "user.role alice \<noteq> SUPERADMIN"
    and g1: "find_permission granted_state ''p1'' = Some invoices_read"
    and g2: "find_permission ungranted_state ''p1'' = Some invoices_read"
    and q1: "store_unique granted_state" and q2: "store_unique ungranted_state"
    by (simp_all add: store_unique_def perm_triple_def example_defs service_defs)
  have read_fails: "getCache granted_state False 5000 (USER_PERMISSIONS ''u1'') = None"
    and read_hits: "getCache granted_state True 5000 (USER_PERMISSIONS ''u1'')
                    = Some [(''sales'', ''read'', ''invoices'')]"
    by (simp_all add: getCache_def USER_PERMISSIONS_def example_defs)
  have has: "hasPermission [(''sales'', ''read'', ''invoices'')] ''sales'' ''read'' ''invoices''"
    by (simp add: hasPermission_def)
  from permission_cache_after_mutation[OF u1 role g1 q1, where now = 4000 and del_ok = True
      and byId = "''u0''" and now' = 5000 and ttl = 1800 and get_ok = True and set_ok = True]
    permission_cache_after_mutation[OF u2 role g2 q2, where now = 4000 and del_ok = True
      and byId = "''u0''" and now' = 5000 and ttl = 1800 and get_ok = True and set_ok = True]
    permission_cache_after_mutation[OF u1 role g1 q1, where now = 4000 and del_ok = False
      and byId = "''u0''" and now' = 5000 and ttl = 1800 and get_ok = False and set_ok = True]
    permission_cache_after_mutation[OF u1 role g1 q1, where now = 4000 and del_ok = False
      and byId = "''u0''" and now' = 5000 and ttl = 1800 and get_ok = True and set_ok = True]
    stale1 stale2 read_fails read_hits has
  show ?thesis by (auto simp: invoices_read_def)
qed

text \<open>
  C3, as the claim states it, fails. With no separate refresh secret in the environment
  the module signs both profiles with the access secret, and a token issued by
  \<^verbatim>\<open>generateRefreshToken\<close> is accepted by \<^verbatim>\<open>verifyAccessToken\<close>, which returns its claims.
\<close>

theorem refresh_token_as_access_counterexample:
  "load_tokens_js shared_secret_env example_config = Some shared_secret_module
   \<and> generateRefreshToken shared_secret_module 5000 alice_refresh_payload
       = Inr (Jwt alice_refresh_payload 5 604805 ''zirakbook'' ''zirakbook-users'' ''k-access'' None)
   \<and> verifyAccessToken shared_secret_module 6000
        (Jwt alice_refresh_payload 5 604805 ''zirakbook'' ''zirakbook-users'' ''k-access'' None)
       = Inr \<lparr>d_payload = alice_refresh_payload, d_iat = 5, d_exp = 604805,
              d_iss = ''zirakbook'', d_aud = ''zirakbook-users'', d_nbf = None\<rparr>"
  by (simp add: load_tokens_js_def shared_secret_env_def shared_secret_module_def
      example_config_def generateRefreshToken_def jwt_sign_def clock_of_def
      verifyAccessToken_def jwt_verify_def)

text \<open>
  C3, amended. A token issued by \<^verbatim>\<open>generateRefreshToken\<close> is rejected by
  \<^verbatim>\<open>verifyAccessToken\<close> with the token-invalid error if and only if the refresh secret in
  force differs from the access secret; when the two are the same secret the verifier
  returns the claims of the refresh token until it expires.
\<close>

theorem refresh_token_as_access:
  assumes "generateRefreshToken m now p = Inr t"
  shows "(verifyAccessToken m now' t = Inl (Api invalidToken)
           \<longleftrightarrow> JWT_REFRESH_SECRET m \<noteq> JWT_SECRET m)
       \<and> (JWT_REFRESH_SECRET m = JWT_SECRET m \<and> \<not> past_expiry now' t \<longrightarrow>
            verifyAccessToken m now' t = Inr (token_claims t))"
  using generateRefreshToken_Inr[OF assms]
  by (auto simp: verifyAccessToken_def jwt_verify_def tokenExpired_def invalidToken_def
      past_expiry_def token_claims_def)

theorem refresh_token_as_access_witness:
  "generateRefreshToken two_secret_module 5000 alice_refresh_payload
     = Inr (Jwt alice_refresh_payload 5 604805 ''zirakbook'' ''zirakbook-users'' ''k-refresh'' None)
   \<and> verifyAccessToken two_secret_module 6000
        (Jwt alice_refresh_payload 5 604805 ''zirakbook'' ''zirakbook-users'' ''k-refresh'' None)
       = Inl (Api invalidToken)"
proof -
  have g: "generateRefreshToken two_secret_module 5000 alice_refresh_payload
     = Inr (Jwt alice_refresh_payload 5 604805 ''zirakbook'' ''zirakbook-users'' ''k-refresh'' None)"
    by (simp add: two_secret_module_def example_config_def generateRefreshToken_def
        jwt_sign_def clock_of_def)
  have "JWT_REFRESH_SECRET two_secret_module \<noteq> JWT_SECRET two_secret_module"
    by (simp add: two_secret_module_def)
  with refresh_token_as_access[OF g, of 6000] g show ?thesis by simp
qed



text \<open>
  C5. An identity that is not ACTIVE cannot log in: whatever the password the login fails
  and the state is unchanged, and with the correct password a SUSPENDED or INACTIVE
  identity gets a Forbidden error. An ACTIVE identity of an inactive tenant gets a
  Forbidden error too. A refresh presented with a valid token that equals the stored one
  fails with a Forbidden error when the identity is not ACTIVE or its tenant is inactive.
  In every case the result is an error, so no tokens are issued, and the state, with the
  stored refresh token, is unchanged.
\<close>

theorem status_and_tenant_gating:
  "(find_user_by_email s (toLowerCase mail) = Some u \<and> user.status u \<noteq> ACTIVE
      \<longrightarrow> (\<exists>e. login m now s mail pw = (Inl (Api e), s)))
   \<and> (find_user_by_email s (toLowerCase mail) = Some u \<and> comparePassword pw (password u)
        \<and> (user.status u = SUSPENDED \<or> user.status u = INACTIVE)
      \<longrightarrow> (\<exists>e. login m now s mail pw = (Inl (Api e), s) \<and> statusCode e = FORBIDDEN))
   \<and> (find_user_by_email s (toLowerCase mail) = Some u \<and> comparePassword pw (password u)
        \<and> user.status u = ACTIVE \<and> find_company s (companyId u) = Some c \<and> \<not> isActive c
      \<longrightarrow> login m now s mail pw = (Inl (Api (forbidden ''Company account is inactive'')), s))
   \<and> (verifyRefreshToken m now t = Inr d \<and> find_user_by_id s (p_id (d_payload d)) = Some v
        \<and> user.refreshToken v = Some t \<and> user.status v \<noteq> ACTIVE
      \<longrightarrow> refreshAccessToken m now s t = (Inl (Api (forbidden ''Account is not active'')), s))
   \<and> (verifyRefreshToken m now t = Inr d \<and> find_user_by_id s (p_id (d_payload d)) = Some v
        \<and> user.refreshToken v = Some t \<and> user.status v = ACTIVE
        \<and> find_company s (companyId v) = Some c' \<and> \<not> isActive c'
      \<longrightarrow> refreshAccessToken m now s t
            = (Inl (Api (forbidden ''Company account is inactive'')), s))
   \<and> statusCode (forbidden msg) = FORBIDDEN"
proof (intro conjI impI)
  assume "find_user_by_email s (toLowerCase mail) = Some u \<and> user.status u \<noteq> ACTIVE"
  then show "\<exists>e. login m now s mail pw = (Inl (Api e), s)"
    by (cases "user.status u") (auto simp: login_def)
next
  assume "find_user_by_email s (toLowerCase mail) = Some u \<and> comparePassword pw (password u)
        \<and> (user.status u = SUSPENDED \<or> user.status u = INACTIVE)"
  then show "\<exists>e. login m now s mail pw = (Inl (Api e), s) \<and> statusCode e = FORBIDDEN"
    by (auto simp: login_def forbidden_def accountSuspended_def)
next
  assume "find_user_by_email s (toLowerCase mail) = Some u \<and> comparePassword pw (password u)
        \<and> user.status u = ACTIVE \<and> find_company s (companyId u) = Some c \<and> \<not> isActive c"
  then show "login m now s mail pw = (Inl (Api (forbidden ''Company account is inactive'')), s)"
    by (simp add: login_def)
next
  assume a: "verifyRefreshToken m now t = Inr d \<and> find_user_by_id s (p_id (d_payload d)) = Some v
        \<and> user.refreshToken v = Some t \<and> user.status v \<noteq> ACTIVE"
  then have "t \<noteq> NotJwt []" using verifyRefreshToken_Inr(1) by blast
  with a show "refreshAccessToken m now s t = (Inl (Api (forbidden ''Account is not active'')), s)"
    by (simp add: refreshAccessToken_def)
next
  assume a: "verifyRefreshToken m now t = Inr d \<and> find_user_by_id s (p_id (d_payload d)) = Some v
        \<and> user.refreshToken v = Some t \<and> user.status v = ACTIVE
        \<and> find_company s (companyId v) = Some c' \<and> \<not> isActive c'"
  then have "t \<noteq> NotJwt []" using verifyRefreshToken_Inr(1) by blast
  with a show "refreshAccessToken m now s t
            = (Inl (Api (forbidden ''Company account is inactive'')), s)"
    by (simp add: refreshAccessToken_def)
next
  show "statusCode (forbidden msg) = FORBIDDEN" by (simp add: forbidden_def)
qed

theorem status_and_tenant_gating_witness:
  "login shared_secret_module 100000 example_state ''bob@example.com'' ''Secret@456''
     = (Inl (Api accountSuspended), example_state)
   \<and> login shared_secret_module 100000 example_state ''carol@example.com'' ''Secret@789''
     = (Inl (Api (forbidden ''Company account is inactive'')), example_state)
   \<and> refreshAccessToken shared_secret_module 100000 example_state bob_token
     = (Inl (Api (forbidden ''Account is not active'')), example_state)
   \<and> refreshAccessToken shared_secret_module 100000 example_state carol_token
     = (Inl (Api (forbidden ''Company account is inactive'')), example_state)"
proof -
  have b: "find_user_by_email example_state (toLowerCase ''bob@example.com'') = Some bob"
    and c: "find_user_by_email example_state (toLowerCase ''carol@example.com'') = Some carol"
    and bp: "comparePassword ''Secret@456'' (password bob)"
    and cp: "comparePassword ''Secret@789'' (password carol)"
    and bs: "user.status bob = SUSPENDED" and cs: "user.status carol = ACTIVE"
    and cc: "find_company example_state (companyId carol)
             = Some \<lparr>company.id = ''c2'', name = ''Dormant'', isActive = False\<rparr>"
    by (simp_all add: toLowerCase_examples example_defs service_defs)
  have bv: "verifyRefreshToken shared_secret_module 100000 bob_token
            = Inr \<lparr>d_payload = jwt_payload bob_token, d_iat = 50, d_exp = 604850,
                   d_iss = ''zirakbook'', d_aud = ''zirakbook-users'', d_nbf = None\<rparr>"
    and cv: "verifyRefreshToken shared_secret_module 100000 carol_token
            = Inr \<lparr>d_payload = jwt_payload carol_token, d_iat = 60, d_exp = 604860,
                   d_iss = ''zirakbook'', d_aud = ''zirakbook-users'', d_nbf = None\<rparr>"
    and bi: "find_user_by_id example_state (p_id (jwt_payload bob_token)) = Some bob"
    and ci: "find_user_by_id example_state (p_id (jwt_payload carol_token)) = Some carol"
    and bt: "user.refreshToken bob = Some bob_token"
    and ct: "user.refreshToken carol = Some carol_token"
    by (simp_all add: example_defs service_defs)
  have susp: "login shared_secret_module 100000 example_state ''bob@example.com'' ''Secret@456''
     = (Inl (Api accountSuspended), example_state)"
    using b bp bs by (simp add: login_def)
  from b c bp cp bs cs cc bv cv bi ci bt ct susp
    status_and_tenant_gating [where s = example_state and mail = "''bob@example.com''"
      and u = bob and m = shared_secret_module and now = 100000 and pw = "''Secret@456''"
      and t = bob_token and v = bob
      and d = "\<lparr>d_payload = jwt_payload bob_token, d_iat = 50, d_exp = 604850,
                 d_iss = ''zirakbook'', d_aud = ''zirakbook-users'', d_nbf = None\<rparr>"]
    status_and_tenant_gating [where s = example_state and mail = "''carol@example.com''"
      and u = carol and m = shared_secret_module and now = 100000 and pw = "''Secret@789''"
      and c = "\<lparr>company.id = ''c2'', name = ''Dormant'', isActive = False\<rparr>"
      and t = carol_token and v = carol
      and c' = "\<lparr>company.id = ''c2'', name = ''Dormant'', isActive = False\<rparr>"
      and d = "\<lparr>d_payload = jwt_payload carol_token, d_iat = 60, d_exp = 604860,
                 d_iss = ''zirakbook'', d_aud = ''zirakbook-users'', d_nbf = None\<rparr>"]
  show ?thesis by simp
qed

text \<open>
  C6, as the claim states it, fails. \<^verbatim>\<open>logout\<close> does not look at what \<^verbatim>\<open>deleteCache\<close>
  returns, and \<^verbatim>\<open>deleteCache\<close> catches the error of a Redis command that fails. Alice is
  logged in and her permissions are cached; the logout, whose delete command fails,
  completes normally and the entry is still read from the cache afterwards; and a second
  logout, whose delete succeeds, does not leave the same state.
\<close>

theorem logout_counterexample:
  "logout False alice_cached ''u1''
     = (Inr (),
        alice_cached\<lparr>users := [root_user, alice\<lparr>lastLoginAt := Some 100200\<rparr>, bob, carol]\<rparr>)
   \<and> getCache (snd (logout False alice_cached ''u1'')) True 200000 (USER_PERMISSIONS ''u1'')
     = Some [(''sales'', ''read'', ''invoices'')]
   \<and> fst (logout True (snd (logout False alice_cached ''u1'')) ''u1'') = Inr ()
   \<and> redis (snd (logout True (snd (logout False alice_cached ''u1'')) ''u1''))
        ''user:u1:permissions''
     \<noteq> redis (snd (logout False alice_cached ''u1'')) ''user:u1:permissions''"
  by (simp add: logout_def deleteCache_def getCache_def USER_PERMISSIONS_def example_defs
      service_defs)

text \<open>
  C6, amended. Logging out an existing identity succeeds; afterwards its stored refresh
  token is null, and every later refresh presented with a token of that identity, the
  refresh token stored before the logout among them, fails with status Unauthorized (with
  the unauthorized error of a mismatch as long as the token still verifies). Its cached
  permission entry is removed when the delete command succeeds, and then no read of the
  cache finds it; when the command fails the logout still succeeds and the cache is as it
  was. Logging out again succeeds and leaves the four tables as they are; it leaves the
  whole state as it is unless the first delete failed on an existing entry and the second
  one succeeds.
\<close>

theorem logout_postcondition:
  assumes u: "find_user_by_id s uid = Some u"
  shows "\<exists>s'. logout del_ok s uid = (Inr (), s')
     \<and> map_option user.refreshToken (find_user_by_id s' uid) = Some None
     \<and> (del_ok \<longrightarrow> getCache s' get_ok now (USER_PERMISSIONS uid) = None)
     \<and> (redis_client s \<and> del_ok \<longrightarrow> redis s' (USER_PERMISSIONS uid) = None)
     \<and> (\<not> del_ok \<longrightarrow> redis s' = redis s)
     \<and> (\<exists>s''. logout del_ok' s' uid = (Inr (), s'')
            \<and> users s'' = users s' \<and> companies s'' = companies s'
            \<and> permissions s'' = permissions s' \<and> userPermissions s'' = userPermissions s'
            \<and> (del_ok \<or> \<not> del_ok' \<or> \<not> redis_client s \<or> redis s (USER_PERMISSIONS uid) = None
                 \<longrightarrow> s'' = s'))
     \<and> (\<forall>T now'. token_subject T = Some uid
            \<or> (user.refreshToken u = Some T \<and> token_belongs u) \<longrightarrow>
           (\<exists>e. refreshAccessToken m now' s' T = (Inl (Api e), s')
                \<and> statusCode e = UNAUTHORIZED
                \<and> (\<not> isl (verifyRefreshToken m now' T) \<longrightarrow>
                     e = unauthorized ''Invalid refresh token'')))"
proof -
  let ?f = "\<lambda>u. u\<lparr>user.refreshToken := None\<rparr>"
  let ?key = "USER_PERMISSIONS uid"
  from logout_effect[OF u, of del_ok] obtain s' where
    out: "logout del_ok s uid = (Inr (), s')"
    and u': "find_user_by_id s' uid = Some (?f u)"
    and us: "users s' = map (\<lambda>u. if user.id u = uid then ?f u else u) (users s)"
    and rc: "redis_client s' = redis_client s"
    and rd: "redis s' = (if redis_client s \<and> del_ok then (redis s)(?key := None) else redis s)"
    by blast
  have stored: "map_option user.refreshToken (find_user_by_id s' uid) = Some None"
    using u' by simp
  have gone: "del_ok \<longrightarrow> getCache s' get_ok now ?key = None"
    using rc rd by (simp add: getCache_def)
  have entry: "redis_client s \<and> del_ok \<longrightarrow> redis s' ?key = None"
    using rd by simp
  have kept: "\<not> del_ok \<longrightarrow> redis s' = redis s"
    using rd by simp
  from logout_effect[OF u', of del_ok'] obtain s'' where
    out2: "logout del_ok' s' uid = (Inr (), s'')"
    and us2: "users s'' = map (\<lambda>u. if user.id u = uid then ?f u else u) (users s')"
    and co2: "companies s'' = companies s'" and pe2: "permissions s'' = permissions s'"
    and up2: "userPermissions s'' = userPermissions s'"
    and rc2: "redis_client s'' = redis_client s'"
    and rd2: "redis s'' = (if redis_client s' \<and> del_ok' then (redis s')(?key := None)
                           else redis s')"
    by blast
  have users2: "users s'' = users s'"
    unfolding us2 us by (rule clear_token_idem)
  have same: "del_ok \<or> \<not> del_ok' \<or> \<not> redis_client s \<or> redis s ?key = None \<longrightarrow> s'' = s'"
  proof
    assume c: "del_ok \<or> \<not> del_ok' \<or> \<not> redis_client s \<or> redis s ?key = None"
    have "redis s'' = redis s'"
      using c rd rd2 rc by (auto simp: fun_upd_idem_iff)
    with users2 co2 pe2 up2 rc2 show "s'' = s'" by (intro state_eqI) simp_all
  qed
  have again: "\<exists>s''. logout del_ok' s' uid = (Inr (), s'')
            \<and> users s'' = users s' \<and> companies s'' = companies s'
            \<and> permissions s'' = permissions s' \<and> userPermissions s'' = userPermissions s'
            \<and> (del_ok \<or> \<not> del_ok' \<or> \<not> redis_client s \<or> redis s ?key = None \<longrightarrow> s'' = s')"
    by (rule exI[of _ s'']) (intro conjI out2 users2 co2 pe2 up2 same)
  have id: "user.id u = uid" using u by (rule find_user_by_id_id)
  have refresh: "\<forall>T now'. token_subject T = Some uid
            \<or> (user.refreshToken u = Some T \<and> token_belongs u) \<longrightarrow>
           (\<exists>e. refreshAccessToken m now' s' T = (Inl (Api e), s')
                \<and> statusCode e = UNAUTHORIZED
                \<and> (\<not> isl (verifyRefreshToken m now' T) \<longrightarrow>
                     e = unauthorized ''Invalid refresh token''))"
  proof (intro allI impI)
    fix T now'
    assume "token_subject T = Some uid \<or> (user.refreshToken u = Some T \<and> token_belongs u)"
    then have "token_subject T = Some uid"
      using id by (auto simp: token_belongs_def)
    then show "\<exists>e. refreshAccessToken m now' s' T = (Inl (Api e), s')
                \<and> statusCode e = UNAUTHORIZED
                \<and> (\<not> isl (verifyRefreshToken m now' T) \<longrightarrow>
                     e = unauthorized ''Invalid refresh token'')"
      using refresh_mismatch_unauthorized[of T uid s' "?f u" m now'] u' by simp
  qed
  show ?thesis
    by (rule exI[of _ s']) (intro conjI out stored gone entry kept again refresh)
qed

theorem logout_postcondition_witness:
  "logout True alice_cached ''u1''
     = (Inr (),
        alice_cached\<lparr>users := [root_user, alice\<lparr>lastLoginAt := Some 100200\<rparr>, bob, carol],
                     redis := Map.empty\<rparr>)
   \<and> redis alice_cached ''user:u1:permissions''
       = Some ([(''sales'', ''read'', ''invoices'')], 9000000)
   \<and> redis (snd (logout True alice_cached ''u1'')) (USER_PERMISSIONS ''u1'') = None
   \<and> getCache (snd (logout True alice_cached ''u1'')) True 200000 (USER_PERMISSIONS ''u1'')
       = None
   \<and> refreshAccessToken shared_secret_module 100900
         (snd (logout True alice_cached ''u1'')) alice_refresh_100
       = (Inl (Api (unauthorized ''Invalid refresh token'')),
          snd (logout True alice_cached ''u1''))
   \<and> statusCode (unauthorized ''Invalid refresh token'') = UNAUTHORIZED
   \<and> logout True (snd (logout True alice_cached ''u1'')) ''u1''
       = (Inr (), snd (logout True alice_cached ''u1''))"
proof -
  let ?a = "alice\<lparr>lastLoginAt := Some 100200, user.refreshToken := Some alice_refresh_100\<rparr>"
  have u: "find_user_by_id alice_cached ''u1'' = Some ?a"
    by (simp add: example_defs service_defs)
  have out: "logout True alice_cached ''u1''
     = (Inr (),
        alice_cached\<lparr>users := [root_user, alice\<lparr>lastLoginAt := Some 100200\<rparr>, bob, carol],
                     redis := Map.empty\<rparr>)"
    by (simp add: logout_def deleteCache_def example_defs service_defs)
  have entry: "redis alice_cached ''user:u1:permissions''
       = Some ([(''sales'', ''read'', ''invoices'')], 9000000)"
    and client: "redis_client alice_cached"
    by (simp_all add: example_defs)
  have tb: "token_belongs ?a"
    by (simp add: token_belongs_def token_subject_def example_defs)
  have st: "user.refreshToken ?a = Some alice_refresh_100" by simp
  have v: "\<not> isl (verifyRefreshToken shared_secret_module 100900 alice_refresh_100)"
    by (simp add: example_defs service_defs)
  from logout_postcondition[OF u, where del_ok = True and del_ok' = True and get_ok = True
      and now = 200000 and m = shared_secret_module]
    out entry client tb st v
  show ?thesis by (auto simp: unauthorized_def)
qed

text \<open>
  C7, as the claim states it, fails. The service function \<^verbatim>\<open>changePassword\<close> does not
  compare the new password with the current one: with the correct current password it
  accepts a new password equal to it.
\<close>

theorem changePassword_same_counterexample:
  "find_user_by_id example_state ''u1'' = Some alice
   \<and> comparePassword ''Secret@123'' (password alice)
   \<and> changePassword 2000 9 example_state ''u1'' ''Secret@123'' ''Secret@123''
     = (Inr (),
        example_state
          \<lparr>users := [root_user,
                     alice\<lparr>password := Bcrypt 9 ''Secret@123'', passwordChangedAt := Some 2000,
                           user.refreshToken := None\<rparr>,
                     bob, carol]\<rparr>)"
  by (simp add: changePassword_def example_defs service_defs)

text \<open>
  C7, amended. For an existing identity, \<^verbatim>\<open>changePassword\<close> fails when the current
  password does not verify against the stored hash; otherwise it succeeds, stores the hash
  of the new password, records the time of the change and clears the stored refresh token.
  A new password equal to the current one is rejected by the request schema of the route,
  before the service function is called, and not by the service function.
\<close>

theorem changePassword_contract:
  assumes u: "find_user_by_id s uid = Some u"
  shows "(\<not> comparePassword cur (password u) \<longrightarrow>
            changePassword now slt s uid cur new
              = (Inl (Api (badRequest ''Current password is incorrect'')), s))
     \<and> (comparePassword cur (password u) \<longrightarrow>
          (\<exists>s' u'. changePassword now slt s uid cur new = (Inr (), s')
             \<and> find_user_by_id s' uid = Some u'
             \<and> password u' = hashPassword slt new
             \<and> passwordChangedAt u' = Some now
             \<and> user.refreshToken u' = None))
     \<and> (cur = new \<longrightarrow>
          post_change_password now slt s uid
            \<lparr>body_currentPassword = Some cur, body_newPassword = Some new,
             body_confirmPassword = k\<rparr>
            = (Inl (Api (badRequest ''Validation failed'')), s))
     \<and> (changePasswordSchema b = Some (cur, new) \<longrightarrow>
          cur \<noteq> new
          \<and> post_change_password now slt s uid b = changePassword now slt s uid cur new)"
proof (intro conjI impI)
  assume "\<not> comparePassword cur (password u)"
  with u show "changePassword now slt s uid cur new
              = (Inl (Api (badRequest ''Current password is incorrect'')), s)"
    by (simp add: changePassword_def)
next
  assume ok: "comparePassword cur (password u)"
  let ?f = "\<lambda>u. u\<lparr>password := hashPassword slt new, passwordChangedAt := Some now,
                   user.refreshToken := None\<rparr>"
  let ?s' = "s\<lparr>users := map (\<lambda>u. if user.id u = uid then ?f u else u) (users s)\<rparr>"
  have upd: "user_update uid ?f s = Inr ?s'" using u by (rule user_update_Inr)
  have "find_user_by_id ?s' uid = Some (?f u)"
    using find_user_by_id_after_update[OF upd, of uid] u by simp
  moreover have "changePassword now slt s uid cur new = (Inr (), ?s')"
    using u ok upd by (simp add: changePassword_def)
  ultimately show "\<exists>s' u'. changePassword now slt s uid cur new = (Inr (), s')
             \<and> find_user_by_id s' uid = Some u'
             \<and> password u' = hashPassword slt new
             \<and> passwordChangedAt u' = Some now
             \<and> user.refreshToken u' = None"
    by auto
next
  assume "cur = new"
  then show "post_change_password now slt s uid
            \<lparr>body_currentPassword = Some cur, body_newPassword = Some new,
             body_confirmPassword = k\<rparr>
            = (Inl (Api (badRequest ''Validation failed'')), s)"
    by (simp add: post_change_password_def changePasswordSchema_def)
next
  assume a: "changePasswordSchema b = Some (cur, new)"
  then show "cur \<noteq> new"
    by (auto simp: changePasswordSchema_def split: option.splits if_splits)
  from a show "post_change_password now slt s uid b = changePassword now slt s uid cur new"
    by (simp add: post_change_password_def)
qed

theorem changePassword_contract_witness:
  "changePassword 2000 9 example_state ''u1'' ''Wrong@123'' ''Secret@124''
     = (Inl (Api (badRequest ''Current password is incorrect'')), example_state)
   \<and> (\<exists>s' u'. changePassword 2000 9 example_state ''u1'' ''Secret@123'' ''Secret@124''
                 = (Inr (), s')
        \<and> find_user_by_id s' ''u1'' = Some u'
        \<and> password u' = hashPassword 9 ''Secret@124''
        \<and> passwordChangedAt u' = Some 2000
        \<and> user.refreshToken u' = None)
   \<and> post_change_password 2000 9 example_state ''u1''
        \<lparr>body_currentPassword = Some ''Secret@123'', body_newPassword = Some ''Secret@123'',
         body_confirmPassword = Some ''Secret@123''\<rparr>
       = (Inl (Api (badRequest ''Validation failed'')), example_state)
   \<and> post_change_password 2000 9 example_state ''u1''
        \<lparr>body_currentPassword = Some ''Secret@123'', body_newPassword = Some ''Secret@124'',
         body_confirmPassword = Some ''Secret@124''\<rparr>
       = changePassword 2000 9 example_state ''u1'' ''Secret@123'' ''Secret@124''"
proof -
  have u: "find_user_by_id example_state ''u1'' = Some alice"
    by (simp add: example_defs service_defs)
  have bad: "\<not> comparePassword ''Wrong@123'' (password alice)"
    and good: "comparePassword ''Secret@123'' (password alice)"
    by (simp_all add: alice_def comparePassword_def)
  have pat: "passwordPattern ''Secret@124''"
    by code_simp
  have valid: "changePasswordSchema
        \<lparr>body_currentPassword = Some ''Secret@123'', body_newPassword = Some ''Secret@124'',
         body_confirmPassword = Some ''Secret@124''\<rparr> = Some (''Secret@123'', ''Secret@124'')"
    by (simp add: changePasswordSchema_def pat)
  from bad good valid
    changePassword_contract [OF u, where cur = "''Wrong@123''" and now = 2000 and slt = 9
      and new = "''Secret@124''"]
    changePassword_contract [OF u, where cur = "''Secret@123''" and now = 2000 and slt = 9
      and new = "''Secret@124''"
      and b = "\<lparr>body_currentPassword = Some ''Secret@123'',
                 body_newPassword = Some ''Secret@124'',
                 body_confirmPassword = Some ''Secret@124''\<rparr>"]
    changePassword_contract [OF u, where cur = "''Secret@123''" and now = 2000 and slt = 9
      and new = "''Secret@123''" and k = "Some ''Secret@123''"]
  show ?thesis by simp
qed

text \<open>
  C8. For an identity with the superadmin role a permission check is true for every
  triple, whatever the cache and the assignment table hold and whether or not there is a
  Redis client and its commands succeed, and it leaves the state as it was; and assigning permissions to such an
  identity is rejected with an error and changes nothing.
\<close>

theorem superadmin_bypass:
  assumes "find_user_by_id s uid = Some u" and "user.role u = SUPERADMIN"
  shows "checkPermission ttl now get_ok set_ok
             (s\<lparr>userPermissions := ups, redis_client := ok, redis := c\<rparr>) uid mo a r
           = (True, s\<lparr>userPermissions := ups, redis_client := ok, redis := c\<rparr>)
         \<and> assignPermissionsToUser now del_ok s uid pids byId
           = (Inl (Api (badRequest ''Cannot assign permissions to superadmin users'')), s)"
  using assms by (simp add: checkPermission_def assignPermissionsToUser_def find_user_by_id_def)

theorem superadmin_bypass_witness:
  "checkPermission 1800 5000 True True
     (example_state\<lparr>userPermissions := [], redis_client := False, redis := Map.empty\<rparr>)
     ''u0'' ''sales'' ''delete'' ''invoices''
     = (True,
        example_state\<lparr>userPermissions := [], redis_client := False, redis := Map.empty\<rparr>)
   \<and> assignPermissionsToUser 5000 True example_state ''u0'' [''p1''] ''u0''
     = (Inl (Api (badRequest ''Cannot assign permissions to superadmin users'')), example_state)"
proof -
  have u: "find_user_by_id example_state ''u0'' = Some root_user"
    and r: "user.role root_user = SUPERADMIN"
    by (simp_all add: example_defs service_defs)
  from superadmin_bypass[OF u r, where ttl = 1800 and now = 5000 and ups = "[]"
      and get_ok = True and set_ok = True and del_ok = True
      and ok = False and c = Map.empty and mo = "''sales''" and a = "''delete''"
      and r = "''invoices''" and pids = "[''p1'']" and byId = "''u0''"]
  show ?thesis by simp
qed




text \<open>
  C10. The user object that a successful login returns has no \<^verbatim>\<open>password\<close> and no
  \<^verbatim>\<open>refreshToken\<close> property, and the refresh token that the login stores is the one in
  the returned tokens; the user object that a successful registration returns has no
  \<^verbatim>\<open>password\<close> property.
\<close>

theorem no_credentials_returned:
  "(login m now s mail pw = (Inr r, s') \<longrightarrow>
      \<not> has_property (res_user r) ''password''
      \<and> \<not> has_property (res_user r) ''refreshToken''
      \<and> (\<exists>u. find_user_by_email s (toLowerCase mail) = Some u
             \<and> map_option user.refreshToken (find_user_by_id s' (user.id u))
                 = Some (Some (tokens.refreshToken (res_tokens r)))))
   \<and> (register m now slt newId defaults s2 d = (Inr r2, s2') \<longrightarrow>
      \<not> has_property (res_user r2) ''password'')"
proof (intro conjI impI)
  assume l: "login m now s mail pw = (Inr r, s')"
  from login_Inr[OF l] obtain u and c :: company and t where
    u: "find_user_by_email s (toLowerCase mail) = Some u"
    and upd: "user_update (user.id u)
         (\<lambda>u. u\<lparr>lastLoginAt := Some now, user.refreshToken := Some (tokens.refreshToken t)\<rparr>) s
        = Inr s'"
    and r: "r = \<lparr>res_user =
            omit [''password'', ''refreshToken'']
              (user_object u @
               [(''company'', JObj [(''id'', JStr (company.id c)),
                                   (''name'', JStr (company.name c)),
                                   (''isActive'', JBool (isActive c))])]),
          res_tokens = t\<rparr>"
    by blast
  show "\<not> has_property (res_user r) ''password''"
    unfolding r by (simp add: not_has_property_omit)
  show "\<not> has_property (res_user r) ''refreshToken''"
    unfolding r by (simp add: not_has_property_omit)
  from find_user_by_email_id[OF u] obtain u0 where u0: "find_user_by_id s (user.id u) = Some u0"
    by blast
  have "find_user_by_id s' (user.id u)
        = map_option (\<lambda>u. u\<lparr>lastLoginAt := Some now,
                          user.refreshToken := Some (tokens.refreshToken t)\<rparr>)
            (find_user_by_id s (user.id u))"
    using find_user_by_id_after_update[OF upd, of "user.id u"] by simp
  with u0 r u
  show "\<exists>u. find_user_by_email s (toLowerCase mail) = Some u
             \<and> map_option user.refreshToken (find_user_by_id s' (user.id u))
                 = Some (Some (tokens.refreshToken (res_tokens r)))"
    by simp
next
  assume "register m now slt newId defaults s2 d = (Inr r2, s2')"
  from register_Inr[OF this] show "\<not> has_property (res_user r2) ''password''"
    by (simp add: has_property_iff)
qed

theorem no_credentials_returned_witness:
  "\<not> isl (fst (login shared_secret_module 100200 example_state ''alice@example.com''
                  ''Secret@123''))
   \<and> \<not> has_property
         (res_user (projr (fst (login shared_secret_module 100200 example_state
                                   ''alice@example.com'' ''Secret@123''))))
         ''password''
   \<and> \<not> has_property
         (res_user (projr (fst (login shared_secret_module 100200 example_state
                                   ''alice@example.com'' ''Secret@123''))))
         ''refreshToken''
   \<and> \<not> isl (fst (register shared_secret_module 100200 11 ''u4'' [(''avatar'', JNull)]
                    example_state
                    \<lparr>ud_email = ''Dave@Example.com'', ud_password = ''Secret@456'',
                     ud_name = ''Dave'', ud_phone = Some [], ud_role = None,
                     ud_companyId = ''c1''\<rparr>))
   \<and> \<not> has_property
         (res_user (projr (fst (register shared_secret_module 100200 11 ''u4''
                                   [(''avatar'', JNull)] example_state
                                   \<lparr>ud_email = ''Dave@Example.com'',
                                    ud_password = ''Secret@456'', ud_name = ''Dave'',
                                    ud_phone = Some [], ud_role = None,
                                    ud_companyId = ''c1''\<rparr>))))
         ''password''"
proof -
  let ?l = "login shared_secret_module 100200 example_state ''alice@example.com'' ''Secret@123''"
  let ?g = "register shared_secret_module 100200 11 ''u4'' [(''avatar'', JNull)] example_state
              \<lparr>ud_email = ''Dave@Example.com'', ud_password = ''Secret@456'',
               ud_name = ''Dave'', ud_phone = Some [], ud_role = None, ud_companyId = ''c1''\<rparr>"
  have l: "\<not> isl (fst ?l)"
    by (simp add: login_def toLowerCase_examples example_defs service_defs)
  have g: "\<not> isl (fst ?g)"
    by (simp add: register_def toLowerCase_examples example_defs service_defs Let_def)
  from l have l': "?l = (Inr (projr (fst ?l)), snd ?l)" by (simp add: prod_eq_iff)
  from g have g': "?g = (Inr (projr (fst ?g)), snd ?g)" by (simp add: prod_eq_iff)
  from no_credentials_returned
    [where m = shared_secret_module and now = 100200 and s = example_state
      and mail = "''alice@example.com''" and pw = "''Secret@123''"
      and r = "projr (fst ?l)" and s' = "snd ?l" and slt = 11 and newId = "''u4''"
      and defaults = "[(''avatar'', JNull)]" and ?s2.0 = example_state
      and d = "\<lparr>ud_email = ''Dave@Example.com'', ud_password = ''Secret@456'',
               ud_name = ''Dave'', ud_phone = Some [], ud_role = None, ud_companyId = ''c1''\<rparr>"
      and ?r2.0 = "projr (fst ?g)" and s2' = "snd ?g"]
    l g l' g'
  show ?thesis by blast
qed

end
